theory Spec2Isabelle
  imports Main "HOL-Library.Monad_Syntax"
begin

section \<open>The BVH translator of bvhTranslator.cpp\<close>

text \<open>
  The translator reads a whole file into memory, cuts it into whitespace-delimited
  tokens, builds a tree of \<open>Node\<close> objects from the HIERARCHY block, reads the MOTION
  header, walks the tree once per frame and finally asks the host (Maya) to create one
  joint per node.

  Conventions of the embedding:
  \<^item> a \<open>Node*\<close> is the index of the node in the heap, the list of all nodes allocated by
    \<open>new Node()\<close> in allocation order; the program has no \<open>delete\<close>, so the heap only grows;
  \<^item> the token stream is the list of tokens not yet extracted;
  \<^item> an exception thrown by \<open>std::stof\<close> or \<open>std::stoi\<close> is the \<open>Inl\<close> of a sum; the
    program has no \<open>try\<close>, so it leaves every function on the way out;
  \<^item> a loop that may run forever returns an \<open>option\<close>, \<open>None\<close> meaning that it does not
    return.
\<close>

subsection \<open>Tokens\<close>

text \<open>The white space of the "C" locale: space, \<open>\t\<close>, \<open>\n\<close>, \<open>\v\<close>, \<open>\f\<close>, \<open>\r\<close>.\<close>

definition isspace :: "char \<Rightarrow> bool" where
  "isspace c = (of_char c = (32::nat) \<or> (9 \<le> (of_char c :: nat) \<and> (of_char c :: nat) \<le> 13))"

definition isdigit :: "char \<Rightarrow> bool" where
  "isdigit c = (48 \<le> (of_char c :: nat) \<and> (of_char c :: nat) \<le> 57)"

text \<open>
  The tokens that successive \<open>tokens >> s\<close> extract from the content: maximal runs of
  characters that are not white space. \<open>tok\<close> is the token being collected.
\<close>

fun split_tokens :: "string \<Rightarrow> string \<Rightarrow> string list" where
  "split_tokens tok [] = (if tok = [] then [] else [tok])"
| "split_tokens tok (c # cs) =
     (if isspace c then (if tok = [] then split_tokens [] cs else tok # split_tokens [] cs)
      else split_tokens (tok @ [c]) cs)"

definition tokenize :: "string \<Rightarrow> string list" where
  "tokenize content = split_tokens [] content"

text \<open>
  \<open>tokens >> s\<close>: the next token replaces \<open>s\<close>. At the end of the stream the extraction
  fails and leaves \<open>s\<close> as it was (the stream's sentry is false, so the string is not
  erased); the program never tests the stream, so it goes on with the old value.
\<close>

definition read_token :: "string \<Rightarrow> string list \<Rightarrow> string \<times> string list" where
  "read_token s tokens = (case tokens of [] \<Rightarrow> (s, []) | t # ts \<Rightarrow> (t, ts))"

subsection \<open>Numeric conversions\<close>

datatype conv_error = InvalidArgument | OutOfRange

fun digits_val :: "int \<Rightarrow> string \<Rightarrow> int" where
  "digits_val acc [] = acc"
| "digits_val acc (c # cs) = digits_val (10 * acc + (int (of_char c) - 48)) cs"

definition read_sign :: "string \<Rightarrow> bool \<times> string" where
  "read_sign s =
     (case s of
        [] \<Rightarrow> (False, [])
      | c # r \<Rightarrow> if c = CHR ''-'' then (True, r) else if c = CHR ''+'' then (False, r) else (False, s))"

text \<open>
  \<open>std::stoi(str)\<close>, base 10: \<open>strtol\<close> skips white space, takes an optional sign and the
  longest run of digits, and ignores what follows; \<open>std::invalid_argument\<close> when there is
  no digit, \<open>std::out_of_range\<close> when the value does not fit a 32-bit \<open>int\<close>.
\<close>

definition stoi :: "string \<Rightarrow> conv_error + int" where
  "stoi str =
     (let (neg, s) = read_sign (dropWhile isspace str);
          ds = takeWhile isdigit s
      in if ds = [] then Inl InvalidArgument
         else let v = (if neg then - digits_val 0 ds else digits_val 0 ds)
              in if v < - (2 ^ 31) \<or> 2 ^ 31 - 1 < v then Inl OutOfRange else Inr v)"

text \<open>
  \<open>std::stof\<close> is a parameter of the model, \<open>stof :: string \<Rightarrow> conv_error + 'f\<close>, with \<open>'f\<close>
  the type of \<open>float\<close>: the reader stores the floats and never computes with them.
  \<open>stof_decimal\<close> is the instance used on concrete inputs. It converts the decimal
  literals (optional sign, digits with an optional point, optional exponent) and keeps
  the value \<open>m * 10 ^ e\<close> as the pair \<open>(m, e)\<close>; like \<open>strtof\<close> it ignores what follows
  the literal and throws \<open>std::invalid_argument\<close> when there is no digit. Hexadecimal,
  \<open>inf\<close> and \<open>nan\<close> literals and range errors are outside this instance.
\<close>

definition read_exponent :: "string \<Rightarrow> int" where
  "read_exponent s =
     (case s of
        [] \<Rightarrow> 0
      | c # r \<Rightarrow>
          if c = CHR ''e'' \<or> c = CHR ''E'' then
            (let (neg, r1) = read_sign r; ds = takeWhile isdigit r1
             in if ds = [] then 0 else if neg then - digits_val 0 ds else digits_val 0 ds)
          else 0)"

definition stof_decimal :: "string \<Rightarrow> conv_error + (int \<times> int)" where
  "stof_decimal str =
     (let (neg, s) = read_sign (dropWhile isspace str);
          ip = takeWhile isdigit s;
          r1 = dropWhile isdigit s;
          (fp, r2) = (case r1 of
                        [] \<Rightarrow> ([], [])
                      | c # r \<Rightarrow> if c = CHR ''.'' then (takeWhile isdigit r, dropWhile isdigit r)
                                 else ([], r1))
      in if ip = [] \<and> fp = [] then Inl InvalidArgument
         else Inr ((if neg then - digits_val 0 (ip @ fp) else digits_val 0 (ip @ fp)),
                   read_exponent r2 - int (length fp)))"

subsection \<open>Nodes\<close>

text \<open>
  \<open>class Node\<close>. \<open>offset\<close> is \<open>float offset[3]\<close>, which the default constructor leaves
  uninitialised: \<open>None\<close> is a component not yet written. \<open>jointObj\<close> is the host's handle,
  \<open>None\<close> the null object. \<open>parent\<close> and \<open>children\<close> hold heap indices.
\<close>

record 'f Node =
  name :: string
  offset :: "'f option list"
  channels :: "string list"
  jointObj :: "nat option"
  parent :: "nat option"
  children :: "nat list"
  channelValues :: "'f list list"

definition new_Node :: "'f Node" where
  "new_Node = \<lparr>name = [], offset = [None, None, None], channels = [], jointObj = None,
               parent = None, children = [], channelValues = []\<rparr>"

subsection \<open>readNode\<close>

text \<open>
  The loop \<open>for (int i = 0; i < 3; i++) { tokens >> currentToken; node.offset[i] =
  std::stof(currentToken); }\<close>, which readNode and the End branch of the reader both
  contain. A conversion that throws leaves the components written so far.
\<close>

function offset_loop ::
  "(string \<Rightarrow> conv_error + 'f) \<Rightarrow> nat \<Rightarrow> string \<Rightarrow> 'f Node \<Rightarrow> string list
     \<Rightarrow> (conv_error + unit) \<times> string \<times> 'f Node \<times> string list" where
  "offset_loop stof i currentToken node tokens =
     (if i < 3 then
        (let (currentToken1, tokens1) = read_token currentToken tokens
         in case stof currentToken1 of
              Inl e \<Rightarrow> (Inl e, currentToken1, node, tokens1)
            | Inr v \<Rightarrow> offset_loop stof (i + 1) currentToken1
                        (node\<lparr>offset := (offset node)[i := Some v]\<rparr>) tokens1)
      else (Inr (), currentToken, node, tokens))"
  by pat_completeness auto
termination
  by (relation "measure (\<lambda>(stof, i, currentToken, node, tokens). 3 - i)") auto

declare offset_loop.simps [simp del]

text \<open>
  The loop \<open>for (int i = 0; i < nbChannels; i++) { tokens >> currentToken;
  node.channels.push_back(currentToken); }\<close>.
\<close>

function channel_loop ::
  "int \<Rightarrow> int \<Rightarrow> string \<Rightarrow> 'f Node \<Rightarrow> string list \<Rightarrow> string \<times> 'f Node \<times> string list" where
  "channel_loop i nbChannels currentToken node tokens =
     (if i < nbChannels then
        (let (currentToken1, tokens1) = read_token currentToken tokens
         in channel_loop (i + 1) nbChannels currentToken1
              (node\<lparr>channels := channels node @ [currentToken1]\<rparr>) tokens1)
      else (currentToken, node, tokens))"
  by pat_completeness auto
termination
  by (relation "measure (\<lambda>(i, nbChannels, currentToken, node, tokens). nat (nbChannels - i))") auto

declare channel_loop.simps [simp del]

text \<open>
  \<open>bool BvhTranslator::readNode(Node& node, std::istringstream& tokens)\<close>. The result is
  what the call returns (\<open>Inr\<close>) or throws (\<open>Inl\<close>), the node and the stream as the call
  leaves them. \<open>currentToken\<close> is a local of readNode and starts empty.
\<close>

definition readNode ::
  "(string \<Rightarrow> conv_error + 'f) \<Rightarrow> 'f Node \<Rightarrow> string list
     \<Rightarrow> (conv_error + bool) \<times> 'f Node \<times> string list" where
  "readNode stof node tokens =
     (let (nm, tokens1) = read_token (name node) tokens;
          node1 = node\<lparr>name := nm\<rparr>;
          (currentToken2, tokens2) = read_token [] tokens1
      in if currentToken2 \<noteq> ''{'' then (Inr False, node1, tokens2)
         else
           (let (currentToken3, tokens3) = read_token currentToken2 tokens2
            in if currentToken3 \<noteq> ''OFFSET'' then (Inr False, node1, tokens3)
               else
                 (case offset_loop stof 0 currentToken3 node1 tokens3 of
                    (Inl e, currentToken4, node4, tokens4) \<Rightarrow> (Inl e, node4, tokens4)
                  | (Inr u, currentToken4, node4, tokens4) \<Rightarrow>
                      (let (currentToken5, tokens5) = read_token currentToken4 tokens4
                       in if currentToken5 \<noteq> ''CHANNELS'' then (Inr False, node4, tokens5)
                          else
                            (let (currentToken6, tokens6) = read_token currentToken5 tokens5
                             in case stoi currentToken6 of
                                  Inl e \<Rightarrow> (Inl e, node4, tokens6)
                                | Inr nbChannels \<Rightarrow>
                                    (let (currentToken7, node7, tokens7) =
                                           channel_loop 0 nbChannels currentToken6 node4 tokens6
                                     in (Inr True, node7, tokens7)))))))"


subsection \<open>Hierarchy\<close>

lemma read_token_length:
  "read_token s tokens = (s', tokens') \<Longrightarrow> length tokens' \<le> length tokens"
  by (auto simp: read_token_def split: list.splits)

lemma offset_loop_length:
  "offset_loop stof i c node tokens = (r, c', node', tokens') \<Longrightarrow> length tokens' \<le> length tokens"
proof (induction stof i c node tokens rule: offset_loop.induct)
  case (1 stof i c node tokens)
  show ?case
  proof (cases "i < 3")
    case False
    with "1.prems" show ?thesis by (simp add: offset_loop.simps)
  next
    case True
    obtain c1 t1 where rt: "read_token c tokens = (c1, t1)" by (cases "read_token c tokens")
    show ?thesis
    proof (cases "stof c1")
      case (Inl e)
      with "1.prems" True rt read_token_length[OF rt] show ?thesis
        by (simp add: offset_loop.simps[of stof i c node tokens])
    next
      case (Inr v)
      with "1.prems" True rt have
        "offset_loop stof (i + 1) c1 (node\<lparr>offset := (offset node)[i := Some v]\<rparr>) t1 = (r, c', node', tokens')"
        by (simp add: offset_loop.simps[of stof i c node tokens])
      from "1.IH"[OF True rt[symmetric] refl Inr this] read_token_length[OF rt]
      show ?thesis by simp
    qed
  qed
qed

lemma channel_loop_length:
  "channel_loop i n c node tokens = (c', node', tokens') \<Longrightarrow> length tokens' \<le> length tokens"
proof (induction i n c node tokens rule: channel_loop.induct)
  case (1 i n c node tokens)
  show ?case
  proof (cases "i < n")
    case False
    with "1.prems" show ?thesis by (simp add: channel_loop.simps)
  next
    case True
    obtain c1 t1 where rt: "read_token c tokens = (c1, t1)" by (cases "read_token c tokens")
    with "1.prems" True have
      "channel_loop (i + 1) n c1 (node\<lparr>channels := channels node @ [c1]\<rparr>) t1 = (c', node', tokens')"
      by (simp add: channel_loop.simps[of i n c node tokens])
    from "1.IH"[OF True rt[symmetric] refl this] read_token_length[OF rt]
    show ?thesis by simp
  qed
qed

lemma readNode_length:
  "readNode stof node tokens = (r, node', tokens') \<Longrightarrow> length tokens' \<le> length tokens"
  unfolding readNode_def
  by (auto simp: Let_def split: prod.splits if_splits sum.splits
      dest!: read_token_length offset_loop_length channel_loop_length)

lemma readNode_True_length:
  "readNode stof node tokens = (Inr True, node', tokens') \<Longrightarrow> length tokens' < length tokens"
  unfolding readNode_def
  by (auto simp: Let_def read_token_def split: prod.splits if_splits sum.splits list.splits
      dest!: offset_loop_length channel_loop_length)


text \<open>
  The heap after \<open>nodeQueue.back()->children.push_back(node); node->parent =
  nodeQueue.back();\<close>.
\<close>

definition attach :: "'f Node list \<Rightarrow> nat \<Rightarrow> nat \<Rightarrow> 'f Node list" where
  "attach heap back node =
     (let heap1 = heap[back := (heap ! back)\<lparr>children := children (heap ! back) @ [node]\<rparr>]
      in heap1[node := (heap1 ! node)\<lparr>parent := Some back\<rparr>])"

text \<open>
  The End branch of the reader's inner loop, entered with \<open>currentToken = "End"\<close>. The
  token after \<open>End\<close> goes into the new node's name and is compared with nothing. The
  result \<open>Inr False\<close> stands for \<open>return MS::kFailure\<close>, \<open>Inr True\<close> for reaching the end of
  the branch. The new node is on the heap whatever happens.
\<close>

definition end_site ::
  "(string \<Rightarrow> conv_error + 'f) \<Rightarrow> string \<Rightarrow> string list \<Rightarrow> 'f Node list \<Rightarrow> nat list
     \<Rightarrow> (conv_error + bool) \<times> string \<times> string list \<times> 'f Node list" where
  "end_site stof currentToken tokens heap nodeQueue =
     (let node = length heap;
          (nm, tokens1) = read_token (name (new_Node :: 'f Node)) tokens;
          node1 = (new_Node :: 'f Node)\<lparr>name := nm\<rparr>;
          (currentToken2, tokens2) = read_token currentToken tokens1
      in if currentToken2 \<noteq> ''{'' then (Inr False, currentToken2, tokens2, heap @ [node1])
         else
           (let (currentToken3, tokens3) = read_token currentToken2 tokens2
            in if currentToken3 \<noteq> ''OFFSET'' then (Inr False, currentToken3, tokens3, heap @ [node1])
               else
                 (case offset_loop stof 0 currentToken3 node1 tokens3 of
                    (Inl e, currentToken4, node4, tokens4) \<Rightarrow>
                      (Inl e, currentToken4, tokens4, heap @ [node4])
                  | (Inr u, currentToken4, node4, tokens4) \<Rightarrow>
                      (let heap5 = attach (heap @ [node4]) (last nodeQueue) node;
                           (currentToken5, tokens5) = read_token currentToken4 tokens4
                       in if currentToken5 \<noteq> ''}'' then (Inr False, currentToken5, tokens5, heap5)
                          else (Inr True, currentToken5, tokens5, heap5)))))"

lemma end_site_True_length:
  "end_site stof c tokens heap q = (Inr True, c', tokens', heap') \<Longrightarrow> c = ''End''
     \<Longrightarrow> length tokens' < length tokens"
  unfolding end_site_def
  by (auto simp: Let_def read_token_def split: prod.splits if_splits sum.splits list.splits
      dest!: offset_loop_length)

text \<open>
  The inner loop \<open>while (!nodeQueue.empty())\<close> of the hierarchy phase. \<open>nodeQueue\<close> is the
  deque used as a stack, its back the last element. The result is \<open>Inr True\<close> when the
  loop ends, \<open>Inr False\<close> for \<open>return MS::kFailure\<close>, \<open>Inl\<close> for an exception.
\<close>

function joint_loop ::
  "(string \<Rightarrow> conv_error + 'f) \<Rightarrow> string \<Rightarrow> string list \<Rightarrow> 'f Node list \<Rightarrow> nat list
     \<Rightarrow> (conv_error + bool) \<times> string \<times> string list \<times> 'f Node list \<times> nat list" where
  "joint_loop stof currentToken tokens heap nodeQueue =
     (if nodeQueue = [] then (Inr True, currentToken, tokens, heap, nodeQueue)
      else
        (let (currentToken1, tokens1) = read_token currentToken tokens
         in if currentToken1 = ''JOINT'' then
              (let node = length heap
               in case readNode stof new_Node tokens1 of
                    (Inl e, node2, tokens2) \<Rightarrow>
                      (Inl e, currentToken1, tokens2, heap @ [node2], nodeQueue)
                  | (Inr False, node2, tokens2) \<Rightarrow>
                      (Inr False, currentToken1, tokens2, heap @ [node2], nodeQueue)
                  | (Inr True, node2, tokens2) \<Rightarrow>
                      joint_loop stof currentToken1 tokens2
                        (attach (heap @ [node2]) (last nodeQueue) node) (nodeQueue @ [node]))
            else if currentToken1 = ''End'' then
              (case end_site stof currentToken1 tokens1 heap nodeQueue of
                 (Inr True, currentToken2, tokens2, heap2) \<Rightarrow>
                   joint_loop stof currentToken2 tokens2 heap2 nodeQueue
               | (r, currentToken2, tokens2, heap2) \<Rightarrow>
                   (r, currentToken2, tokens2, heap2, nodeQueue))
            else if currentToken1 = ''}'' then
              joint_loop stof currentToken1 tokens1 heap (butlast nodeQueue)
            else (Inr False, currentToken1, tokens1, heap, nodeQueue)))"
  by pat_completeness auto
termination
proof (relation "measures [\<lambda>(stof, c, tokens, heap, q). length tokens,
                           \<lambda>(stof, c, tokens, heap, q). length q]", goal_cases)
  case 1
  show ?case by simp
next
  case 2
  then show ?case
    by (auto dest!: readNode_True_length[OF sym] read_token_length[OF sym])
next
  case 3
  then show ?case
    by (auto dest!: end_site_True_length[OF sym] read_token_length[OF sym])
next
  case 4
  then show ?case
    by (auto dest!: read_token_length[OF sym])
qed

declare joint_loop.simps [simp del]


lemma end_site_length:
  "end_site stof c tokens heap q = (r, c', tokens', heap') \<Longrightarrow> length tokens' \<le> length tokens"
  unfolding end_site_def
  by (auto simp: Let_def split: prod.splits if_splits sum.splits
      dest!: read_token_length offset_loop_length)

lemma joint_loop_length:
  "joint_loop stof c tokens heap q = (r, c', tokens', heap', q')
     \<Longrightarrow> length tokens' \<le> length tokens"
proof (induction stof c tokens heap q rule: joint_loop.induct)
  case (1 stof c tokens heap q)
  show ?case
  proof (cases "q = []")
    case True
    with "1.prems" show ?thesis by (simp add: joint_loop.simps)
  next
    case False
    obtain c1 t1 where rt: "read_token c tokens = (c1, t1)"
      by (cases "read_token c tokens")
    note len1 = read_token_length[OF rt]
    note unfold = joint_loop.simps[of stof c tokens heap q]
    consider (joint) "c1 = ''JOINT''" | (endsite) "c1 = ''End''" | (close) "c1 = ''}''"
      | (other) "c1 \<noteq> ''JOINT''" "c1 \<noteq> ''End''" "c1 \<noteq> ''}''"
      by blast
    then show ?thesis
    proof cases
      case joint
      obtain rn n2 t2 where rn: "readNode stof (new_Node :: 'a Node) t1 = (rn, n2, t2)"
        by (cases "readNode stof (new_Node :: 'a Node) t1")
      note len2 = readNode_length[OF rn]
      show ?thesis
      proof (cases "rn = Inr True")
        case True
        with "1.prems" False rt joint rn have
          "joint_loop stof c1 t2 (attach (heap @ [n2]) (last q) (length heap)) (q @ [length heap])
             = (r, c', tokens', heap', q')"
          by (simp add: unfold Let_def)
        from "1.IH"(1)[OF False rt[symmetric] refl joint refl rn[symmetric] _ _ _ this] True
        have "length tokens' \<le> length t2" by simp
        with len1 len2 show ?thesis by simp
      next
        case F: False
        with "1.prems" False rt joint rn have "tokens' = t2"
          by (auto simp: unfold Let_def split: sum.splits bool.splits)
        with len1 len2 show ?thesis by simp
      qed
    next
      case endsite
      obtain re c2 t2 h2 where es: "end_site stof c1 t1 heap q = (re, c2, t2, h2)"
        by (cases "end_site stof c1 t1 heap q")
      note len2 = end_site_length[OF es]
      show ?thesis
      proof (cases "re = Inr True")
        case True
        with "1.prems" False rt endsite es have rec:
          "joint_loop stof c2 t2 h2 q = (r, c', tokens', heap', q')"
          by (simp add: unfold)
        from endsite have nj: "c1 \<noteq> ''JOINT''" by simp
        from es True have es': "(Inr True, c2, t2, h2) = end_site stof c1 t1 heap q" by simp
        from "1.IH"(2)[OF False rt[symmetric] refl nj endsite es' refl refl refl refl rec]
        have "length tokens' \<le> length t2" .
        with len1 len2 show ?thesis by simp
      next
        case F: False
        with "1.prems" False rt endsite es have "tokens' = t2"
          by (auto simp: unfold Let_def split: sum.splits bool.splits)
        with len1 len2 show ?thesis by simp
      qed
    next
      case close
      with "1.prems" False rt have rec:
        "joint_loop stof c1 t1 heap (butlast q) = (r, c', tokens', heap', q')"
        by (simp add: unfold)
      from close have nj: "c1 \<noteq> ''JOINT''" and ne: "c1 \<noteq> ''End''" by simp_all
      from "1.IH"(3)[OF False rt[symmetric] refl nj ne close rec]
      have "length tokens' \<le> length t1" .
      with len1 show ?thesis by simp
    next
      case other
      with "1.prems" False rt have "tokens' = t1"
        by (simp add: unfold)
      with len1 show ?thesis by simp
    qed
  qed
qed


text \<open>
  The End-Site nodes of a run of the inner loop. The Node class has no mark for them, so
  this observer walks the tokens as \<open>joint_loop\<close> does and returns, for each End branch that
  reaches its end, the node allocated there and the back of the queue at that moment, the
  joint that encloses it.
\<close>

function joint_loop_ends ::
  "(string \<Rightarrow> conv_error + 'f) \<Rightarrow> string \<Rightarrow> string list \<Rightarrow> 'f Node list \<Rightarrow> nat list
     \<Rightarrow> (nat \<times> nat) list" where
  "joint_loop_ends stof currentToken tokens heap nodeQueue =
     (if nodeQueue = [] then []
      else
        (let (currentToken1, tokens1) = read_token currentToken tokens
         in if currentToken1 = ''JOINT'' then
              (case readNode stof new_Node tokens1 of
                 (Inr True, node2, tokens2) \<Rightarrow>
                   joint_loop_ends stof currentToken1 tokens2
                     (attach (heap @ [node2]) (last nodeQueue) (length heap))
                     (nodeQueue @ [length heap])
               | (r, node2, tokens2) \<Rightarrow> [])
            else if currentToken1 = ''End'' then
              (case end_site stof currentToken1 tokens1 heap nodeQueue of
                 (Inr True, currentToken2, tokens2, heap2) \<Rightarrow>
                   (length heap, last nodeQueue) #
                   joint_loop_ends stof currentToken2 tokens2 heap2 nodeQueue
               | (r, currentToken2, tokens2, heap2) \<Rightarrow> [])
            else if currentToken1 = ''}'' then
              joint_loop_ends stof currentToken1 tokens1 heap (butlast nodeQueue)
            else []))"
  by pat_completeness auto
termination
proof (relation "measures [\<lambda>(stof, c, tokens, heap, q). length tokens,
                           \<lambda>(stof, c, tokens, heap, q). length q]", goal_cases)
  case 1
  show ?case by simp
next
  case 2
  then show ?case
    by (auto dest!: readNode_True_length[OF sym] read_token_length[OF sym])
next
  case 3
  then show ?case
    by (auto dest!: end_site_True_length[OF sym] read_token_length[OF sym])
next
  case 4
  then show ?case
    by (auto dest!: read_token_length[OF sym])
qed

declare joint_loop_ends.simps [simp del]

text \<open>
  The outer loop \<open>while (currentToken.compare("ROOT") == 0)\<close>. \<open>rootVect\<close> collects the
  roots in declaration order.
\<close>

function root_loop ::
  "(string \<Rightarrow> conv_error + 'f) \<Rightarrow> string \<Rightarrow> string list \<Rightarrow> 'f Node list \<Rightarrow> nat list \<Rightarrow> nat list
     \<Rightarrow> (conv_error + bool) \<times> string \<times> string list \<times> 'f Node list \<times> nat list \<times> nat list" where
  "root_loop stof currentToken tokens heap rootVect nodeQueue =
     (if currentToken = ''ROOT'' then
        (let root = length heap
         in case readNode stof new_Node tokens of
              (Inl e, node1, tokens1) \<Rightarrow>
                (Inl e, currentToken, tokens1, heap @ [node1], rootVect, nodeQueue)
            | (Inr False, node1, tokens1) \<Rightarrow>
                (Inr False, currentToken, tokens1, heap @ [node1], rootVect, nodeQueue)
            | (Inr True, node1, tokens1) \<Rightarrow>
                (case joint_loop stof currentToken tokens1 (heap @ [node1]) (nodeQueue @ [root]) of
                   (Inr True, currentToken2, tokens2, heap2, nodeQueue2) \<Rightarrow>
                     (let (currentToken3, tokens3) = read_token currentToken2 tokens2
                      in root_loop stof currentToken3 tokens3 heap2 (rootVect @ [root]) nodeQueue2)
                 | (r, currentToken2, tokens2, heap2, nodeQueue2) \<Rightarrow>
                     (r, currentToken2, tokens2, heap2, rootVect @ [root], nodeQueue2)))
      else (Inr True, currentToken, tokens, heap, rootVect, nodeQueue))"
  by pat_completeness auto
termination
proof (relation "measure (\<lambda>(stof, c, tokens, heap, roots, q). length tokens)", goal_cases)
  case 1
  show ?case by simp
next
  case 2
  then show ?case
    by (auto dest!: readNode_True_length[OF sym] joint_loop_length[OF sym]
        read_token_length[OF sym])
qed

declare root_loop.simps [simp del]

text \<open>The End-Site nodes of a run of the outer loop, root after root.\<close>

function root_loop_ends ::
  "(string \<Rightarrow> conv_error + 'f) \<Rightarrow> string \<Rightarrow> string list \<Rightarrow> 'f Node list \<Rightarrow> nat list \<Rightarrow> nat list
     \<Rightarrow> (nat \<times> nat) list" where
  "root_loop_ends stof currentToken tokens heap rootVect nodeQueue =
     (if currentToken = ''ROOT'' then
        (case readNode stof new_Node tokens of
           (Inr True, node1, tokens1) \<Rightarrow>
             joint_loop_ends stof currentToken tokens1 (heap @ [node1]) (nodeQueue @ [length heap]) @
             (case joint_loop stof currentToken tokens1 (heap @ [node1])
                     (nodeQueue @ [length heap]) of
                (Inr True, currentToken2, tokens2, heap2, nodeQueue2) \<Rightarrow>
                  (let (currentToken3, tokens3) = read_token currentToken2 tokens2
                   in root_loop_ends stof currentToken3 tokens3 heap2
                        (rootVect @ [length heap]) nodeQueue2)
              | (r, currentToken2, tokens2, heap2, nodeQueue2) \<Rightarrow> [])
         | (r, node1, tokens1) \<Rightarrow> [])
      else [])"
  by pat_completeness auto
termination
proof (relation "measure (\<lambda>(stof, c, tokens, heap, roots, q). length tokens)", goal_cases)
  case 1
  show ?case by simp
next
  case 2
  then show ?case
    by (auto dest!: readNode_True_length[OF sym] joint_loop_length[OF sym]
        read_token_length[OF sym])
qed

declare root_loop_ends.simps [simp del]


text \<open>
  What the claims say of an End-Site node \<open>e\<close> under the joint \<open>p\<close>; and how a heap grows
  while the loops run with the queue \<open>q\<close>: nodes are added, and an old node changes only
  by gaining children, and only if it is in the queue.
\<close>

definition end_site_node :: "'f Node list \<Rightarrow> nat \<Rightarrow> nat \<Rightarrow> bool" where
  "end_site_node heap e p =
     (e < length heap \<and> p < length heap \<and> channels (heap ! e) = [] \<and> children (heap ! e) = [] \<and>
      parent (heap ! e) = Some p \<and> e \<in> set (children (heap ! p)))"

definition grows :: "'f Node list \<Rightarrow> nat list \<Rightarrow> 'f Node list \<Rightarrow> bool" where
  "grows heap q heap' =
     (length heap \<le> length heap' \<and>
      (\<forall>a<length heap. \<exists>ys. heap' ! a = (heap ! a)\<lparr>children := children (heap ! a) @ ys\<rparr>
                           \<and> (a \<notin> set q \<longrightarrow> ys = [])))"

subsection \<open>Motion\<close>

text \<open>
  The header \<open>MOTION Frames: <int> Frame Time: <float>\<close>, entered with the token that ended
  the outer loop. \<open>Inr None\<close> stands for \<open>return MS::kFailure\<close>, \<open>Inr (Some (nbFrames,
  timeFrame))\<close> for a header read to its end.
\<close>

definition motion_header ::
  "(string \<Rightarrow> conv_error + 'f) \<Rightarrow> string \<Rightarrow> string list
     \<Rightarrow> (conv_error + (int \<times> 'f) option) \<times> string \<times> string list" where
  "motion_header stof currentToken tokens =
     (if currentToken \<noteq> ''MOTION'' then (Inr None, currentToken, tokens)
      else
        (let (currentToken1, tokens1) = read_token currentToken tokens
         in if currentToken1 \<noteq> ''Frames:'' then (Inr None, currentToken1, tokens1)
            else
              (let (currentToken2, tokens2) = read_token currentToken1 tokens1
               in case stoi currentToken2 of
                    Inl e \<Rightarrow> (Inl e, currentToken2, tokens2)
                  | Inr nbFrames \<Rightarrow>
                      (let (currentToken3, tokens3) = read_token currentToken2 tokens2
                       in if currentToken3 \<noteq> ''Frame'' then (Inr None, currentToken3, tokens3)
                          else
                            (let (currentToken4, tokens4) = read_token currentToken3 tokens3
                             in if currentToken4 \<noteq> ''Time:'' then (Inr None, currentToken4, tokens4)
                                else
                                  (let (currentToken5, tokens5) = read_token currentToken4 tokens4
                                   in case stof currentToken5 of
                                        Inl e \<Rightarrow> (Inl e, currentToken5, tokens5)
                                      | Inr timeFrame \<Rightarrow>
                                          (Inr (Some (nbFrames, timeFrame)), currentToken5,
                                           tokens5)))))))"

text \<open>
  \<open>bool BvhTranslator::readAnimNode(Node& node, std::istringstream& tokens, float
  currentTime)\<close>: it returns true on both paths, extracts no token and writes nothing to
  the node. \<open>currentTime\<close> is read by nothing and is left out, with the float additions
  that compute it.
\<close>

definition readAnimNode :: "'f Node \<Rightarrow> string list \<Rightarrow> bool \<times> 'f Node \<times> string list" where
  "readAnimNode node tokens =
     (if channels node = [] then (True, node, tokens)
      else (let nbChannels = int (length (channels node)) in (True, node, tokens)))"

text \<open>
  The loop \<open>for (int childIndex = node->children.size() - 1; childIndex >= 0; i--)\<close>,
  whose body pushes \<open>node->children[childIndex]\<close> on the queue. The step decrements the
  frame counter \<open>i\<close> of the enclosing loop, not \<open>childIndex\<close>. The start value is
  \<open>-1\<close> for a node without children (the unsigned \<open>size() - 1\<close> wraps and converts to
  \<open>-1\<close>), so that the loop is not entered. \<open>i\<close> is an unbounded integer
  and the queue an unbounded list here; the machine's \<open>int\<close> and memory are finite, which
  is no way for the loop to end normally.
\<close>

partial_function (option) child_loop ::
  "'f Node list \<Rightarrow> nat \<Rightarrow> int \<Rightarrow> int \<Rightarrow> nat list \<Rightarrow> (int \<times> nat list) option" where
  "child_loop heap node childIndex i nodeQueue =
     (if 0 \<le> childIndex then
        child_loop heap node childIndex (i - 1)
          (nodeQueue @ [children (heap ! node) ! nat childIndex])
      else Some (i, nodeQueue))"

text \<open>
  The loop \<open>while (!nodeQueue.empty())\<close> of the motion phase: pop the back, call
  readAnimNode, push the children. The result is the state returned by readAnimNode when
  it is false (\<open>return MS::kFailure\<close>), true when the loop ends.
\<close>

partial_function (option) node_loop ::
  "'f Node list \<Rightarrow> string list \<Rightarrow> int \<Rightarrow> nat list
     \<Rightarrow> (bool \<times> 'f Node list \<times> string list \<times> int \<times> nat list) option" where
  "node_loop heap tokens i nodeQueue =
     (if nodeQueue = [] then Some (True, heap, tokens, i, nodeQueue)
      else
        (let node = last nodeQueue;
             nodeQueue1 = butlast nodeQueue;
             (state, node2, tokens2) = readAnimNode (heap ! node) tokens;
             heap2 = heap[node := node2]
         in if \<not> state then Some (False, heap2, tokens2, i, nodeQueue1)
            else
              child_loop heap2 node (int (length (children (heap2 ! node))) - 1) i nodeQueue1
                \<bind> (\<lambda>(i3, nodeQueue3). node_loop heap2 tokens2 i3 nodeQueue3)))"

text \<open>The loop \<open>for (Node* root : rootVect)\<close> of one frame, over the roots still to visit.\<close>

fun roots_loop ::
  "'f Node list \<Rightarrow> string list \<Rightarrow> int \<Rightarrow> nat list \<Rightarrow> nat list
     \<Rightarrow> (bool \<times> 'f Node list \<times> string list \<times> int \<times> nat list) option" where
  "roots_loop heap tokens i nodeQueue [] = Some (True, heap, tokens, i, nodeQueue)"
| "roots_loop heap tokens i nodeQueue (root # roots) =
     node_loop heap tokens i (nodeQueue @ [root])
       \<bind> (\<lambda>(state, heap1, tokens1, i1, nodeQueue1).
             if \<not> state then Some (False, heap1, tokens1, i1, nodeQueue1)
             else roots_loop heap1 tokens1 i1 nodeQueue1 roots)"

text \<open>The loop \<open>for (int i = 0; i < nbFrames; i++)\<close>.\<close>

partial_function (option) frame_loop ::
  "'f Node list \<Rightarrow> string list \<Rightarrow> int \<Rightarrow> int \<Rightarrow> nat list \<Rightarrow> nat list
     \<Rightarrow> (bool \<times> 'f Node list \<times> string list) option" where
  "frame_loop heap tokens i nbFrames rootVect nodeQueue =
     (if i < nbFrames then
        roots_loop heap tokens i nodeQueue rootVect
          \<bind> (\<lambda>(state, heap1, tokens1, i1, nodeQueue1).
                if \<not> state then Some (False, heap1, tokens1)
                else frame_loop heap1 tokens1 (i1 + 1) nbFrames rootVect nodeQueue1)
      else Some (True, heap, tokens))"

declare child_loop.simps [code]
declare node_loop.simps [code]
declare frame_loop.simps [code]

subsection \<open>Host binding\<close>

text \<open>
  The host is a parameter: \<open>host n\<close> tells whether the \<open>n\<close>-th call of
  \<open>MFnIkJoint::create\<close> succeeds. A call that succeeds returns the handle \<open>Some n\<close>, one that
  fails the null object \<open>None\<close>. mayaCreate passes no status pointer to \<open>create\<close>,
  \<open>setName\<close> or \<open>setTranslation\<close> and returns \<open>void\<close>. The scene is the log of the calls:
  the translation set, the parent handle passed, the handle returned. The name passed to
  \<open>setName\<close> is not in the log: in \<open>MString name(name.c_str())\<close> the initializer names the
  local being declared, not \<open>Node::name\<close>, so the source does not say that the host is sent
  the node's name.
\<close>

record 'f request =
  req_offset :: "'f option list"
  req_parent :: "nat option"
  req_handle :: "nat option"

text \<open>
  \<open>void Node::mayaCreate()\<close>, called on each node of \<open>todo\<close> in turn. The recursion over the
  children is the list of pending calls: the children of the node created go in front of
  the nodes that wait. On a heap with a cycle the calls never end.
\<close>

partial_function (option) mayaCreate ::
  "(nat \<Rightarrow> bool) \<Rightarrow> 'f Node list \<Rightarrow> 'f request list \<Rightarrow> nat list
     \<Rightarrow> ('f Node list \<times> 'f request list) option" where
  "mayaCreate host heap scene todo =
     (case todo of
        [] \<Rightarrow> Some (heap, scene)
      | node # rest \<Rightarrow>
          (let this = heap ! node;
               parentObj = (case parent this of None \<Rightarrow> None | Some p \<Rightarrow> jointObj (heap ! p));
               handle = (if host (length scene) then Some (length scene) else None);
               call = \<lparr>req_offset = offset this, req_parent = parentObj,
                       req_handle = handle\<rparr>
           in mayaCreate host (heap[node := this\<lparr>jointObj := handle\<rparr>]) (scene @ [call])
                (children this @ rest)))"

declare mayaCreate.simps [code]

text \<open>
  Two relations for comparing runs against different hosts: heaps that agree on
  everything but the handles, and scenes that agree on the translations set.
\<close>

definition same_tree :: "'f Node list \<Rightarrow> 'f Node list \<Rightarrow> bool" where
  "same_tree h1 h2 =
     (length h1 = length h2 \<and> (\<forall>a. (h1 ! a)\<lparr>jointObj := None\<rparr> = (h2 ! a)\<lparr>jointObj := None\<rparr>))"

definition same_calls :: "'f request list \<Rightarrow> 'f request list \<Rightarrow> bool" where
  "same_calls s1 s2 = (map req_offset s1 = map req_offset s2)"

subsection \<open>reader\<close>

datatype MStatus = kSuccess | kFailure

text \<open>
  \<open>MStatus BvhTranslator::reader\<close> from the first extraction on. The result is \<open>None\<close> when
  the call does not return; otherwise the status returned (\<open>Inr\<close>) or the exception that
  leaves the call (\<open>Inl\<close>), the nodes allocated and never deleted, the host calls made and
  the tokens left in the stream.
\<close>

definition reader_tokens ::
  "(nat \<Rightarrow> bool) \<Rightarrow> (string \<Rightarrow> conv_error + 'f) \<Rightarrow> string list
     \<Rightarrow> ((conv_error + MStatus) \<times> 'f Node list \<times> 'f request list \<times> string list) option" where
  "reader_tokens host stof tokens0 =
     (let (currentToken, tokens) = read_token [] tokens0
      in if currentToken \<noteq> ''HIERARCHY'' then Some (Inr kFailure, [], [], tokens)
         else
           (let (currentToken1, tokens1) = read_token currentToken tokens
            in case root_loop stof currentToken1 tokens1 [] [] [] of
                 (Inl e, currentToken2, tokens2, heap2, rootVect, nodeQueue) \<Rightarrow>
                   Some (Inl e, heap2, [], tokens2)
               | (Inr False, currentToken2, tokens2, heap2, rootVect, nodeQueue) \<Rightarrow>
                   Some (Inr kFailure, heap2, [], tokens2)
               | (Inr True, currentToken2, tokens2, heap2, rootVect, nodeQueue) \<Rightarrow>
                   (case motion_header stof currentToken2 tokens2 of
                      (Inl e, currentToken3, tokens3) \<Rightarrow> Some (Inl e, heap2, [], tokens3)
                    | (Inr None, currentToken3, tokens3) \<Rightarrow>
                        Some (Inr kFailure, heap2, [], tokens3)
                    | (Inr (Some (nbFrames, timeFrame)), currentToken3, tokens3) \<Rightarrow>
                        frame_loop heap2 tokens3 0 nbFrames rootVect []
                          \<bind> (\<lambda>(state, heap4, tokens4).
                                if \<not> state then Some (Inr kFailure, heap4, [], tokens4)
                                else
                                  mayaCreate host heap4 [] rootVect
                                    \<bind> (\<lambda>(heap5, scene).
                                          Some (Inr kSuccess, heap5, scene, tokens4))))))"

text \<open>
  The reader on a file: \<open>None\<close> is a file that cannot be opened, \<open>Some content\<close> one whose
  whole content is read into the token stream.
\<close>

definition reader ::
  "(nat \<Rightarrow> bool) \<Rightarrow> (string \<Rightarrow> conv_error + 'f) \<Rightarrow> string option
     \<Rightarrow> ((conv_error + MStatus) \<times> 'f Node list \<times> 'f request list \<times> string list) option" where
  "reader host stof file =
     (case file of
        None \<Rightarrow> Some (Inr kFailure, [], [], [])
      | Some content \<Rightarrow> reader_tokens host stof (tokenize content))"

subsection \<open>identifyFile\<close>

datatype MFileKind = kIsMyFileType | kCouldBeMyFileType | kNotMyFileType

text \<open>
  \<open>BvhTranslator::identifyFile\<close>: the body is a comment about the magic number and one
  \<open>return\<close>.
\<close>

definition identifyFile :: "string \<Rightarrow> string \<Rightarrow> int \<Rightarrow> MFileKind" where
  "identifyFile fileName buffer sz = kIsMyFileType"


section \<open>Properties\<close>

subsection \<open>The motion phase\<close>

lemma readAnimNode_result: "readAnimNode node tokens = (True, node, tokens)"
  by (simp add: readAnimNode_def)

text \<open>
  The child loop tests \<open>childIndex\<close> and changes \<open>i\<close>: entered with a child to push, it
  never ends.
\<close>

lemma child_loop_never:
  assumes "0 \<le> childIndex"
  shows "child_loop heap node childIndex i nodeQueue = None"
proof (rule ccontr)
  assume "child_loop heap node childIndex i nodeQueue \<noteq> None"
  then obtain r where r: "child_loop heap node childIndex i nodeQueue = Some r"
    by auto
  have "\<not> 0 \<le> childIndex"
    by (rule child_loop.raw_induct
          [where P = "\<lambda>heap node childIndex i nodeQueue r. \<not> 0 \<le> childIndex", OF _ r])
       (auto split: if_splits)
  with assms show False by simp
qed

lemma node_loop_never:
  assumes "nodeQueue \<noteq> []" and "children (heap ! last nodeQueue) \<noteq> []"
  shows "node_loop heap tokens i nodeQueue = None"
proof -
  have "0 \<le> int (length (children (heap ! last nodeQueue))) - 1"
    using assms(2) by (cases "children (heap ! last nodeQueue)") simp_all
  then show ?thesis
    using assms(1)
    by (subst node_loop.simps) (simp add: readAnimNode_result child_loop_never)
qed

lemma roots_loop_never:
  assumes "children (heap ! root) \<noteq> []"
  shows "roots_loop heap tokens i nodeQueue (root # roots) = None"
  using assms by (simp add: node_loop_never)

lemma frame_loop_never:
  assumes "i < nbFrames" and "children (heap ! root) \<noteq> []"
  shows "frame_loop heap tokens i nbFrames (root # roots) nodeQueue = None"
  using assms by (subst frame_loop.simps) (simp add: roots_loop_never del: roots_loop.simps)

text \<open>
  C1. The claim: in every frame the parser consumes, for each joint with \<open>k > 0\<close>
  channels, exactly \<open>k\<close> tokens and appends them as the joint's value row. The code on a
  root with three channels, no child and one frame of three values: the reader returns
  success, the three values are still in the stream and \<open>channelValues\<close> of the root is
  empty.
\<close>

theorem reader_reads_no_channel_values:
  "reader (\<lambda>n. True) stof_decimal
     (Some ''HIERARCHY ROOT Hips { OFFSET 0 0 0 CHANNELS 3 Xposition Yposition Zposition } MOTION Frames: 1 Frame Time: 0.0333333 0 0 0'')
   = Some (Inr kSuccess,
       [\<lparr>name = ''Hips'', offset = [Some (0, 0), Some (0, 0), Some (0, 0)],
          channels = [''Xposition'', ''Yposition'', ''Zposition''], jointObj = Some 0,
          parent = None, children = [], channelValues = []\<rparr>],
       [\<lparr>req_offset = [Some (0, 0), Some (0, 0), Some (0, 0)],
          req_parent = None, req_handle = Some 0\<rparr>],
       [''0'', ''0'', ''0''])"
  by code_simp

text \<open>The scenario of the specification: a root with an End Site and two frames.\<close>

lemma scenario_tokens:
  "tokenize ''HIERARCHY ROOT Hips { OFFSET 0 0 0 CHANNELS 3 Xposition Yposition Zposition End Site { OFFSET 0 5 0 } } MOTION Frames: 2 Frame Time: 0.0333333 0 0 0 1 0 0'' =
   [''HIERARCHY'', ''ROOT'', ''Hips'', ''{'', ''OFFSET'', ''0'', ''0'', ''0'', ''CHANNELS'', ''3'',
    ''Xposition'', ''Yposition'', ''Zposition'', ''End'', ''Site'', ''{'', ''OFFSET'', ''0'', ''5'',
    ''0'', ''}'', ''}'', ''MOTION'', ''Frames:'', ''2'', ''Frame'', ''Time:'', ''0.0333333'',
    ''0'', ''0'', ''0'', ''1'', ''0'', ''0'']"
  by code_simp

lemma scenario_hierarchy:
  "root_loop stof_decimal ''ROOT''
     [''Hips'', ''{'', ''OFFSET'', ''0'', ''0'', ''0'', ''CHANNELS'', ''3'',
      ''Xposition'', ''Yposition'', ''Zposition'', ''End'', ''Site'', ''{'', ''OFFSET'', ''0'', ''5'',
      ''0'', ''}'', ''}'', ''MOTION'', ''Frames:'', ''2'', ''Frame'', ''Time:'', ''0.0333333'',
      ''0'', ''0'', ''0'', ''1'', ''0'', ''0''] [] [] [] =
   (Inr True, ''MOTION'',
    [''Frames:'', ''2'', ''Frame'', ''Time:'', ''0.0333333'', ''0'', ''0'', ''0'', ''1'', ''0'', ''0''],
    [\<lparr>name = ''Hips'', offset = [Some (0, 0), Some (0, 0), Some (0, 0)],
       channels = [''Xposition'', ''Yposition'', ''Zposition''], jointObj = None, parent = None,
       children = [1], channelValues = []\<rparr>,
     \<lparr>name = ''Site'', offset = [Some (0, 0), Some (5, 0), Some (0, 0)], channels = [],
       jointObj = None, parent = Some 0, children = [], channelValues = []\<rparr>],
    [0], [])"
  by code_simp

lemma scenario_header:
  "motion_header stof_decimal ''MOTION''
     [''Frames:'', ''2'', ''Frame'', ''Time:'', ''0.0333333'', ''0'', ''0'', ''0'', ''1'', ''0'', ''0''] =
   (Inr (Some (2, (333333, - 7))), ''0.0333333'', [''0'', ''0'', ''0'', ''1'', ''0'', ''0''])"
  by code_simp

text \<open>
  C2. The claim: the reader terminates on every input, the traversal of a frame visiting
  each child once and leaving the frame index alone. The code on the scenario of the
  specification: hierarchy and header are read, then the first frame pops the root and
  pushes its child without end, decrementing the frame index each time; the reader does
  not return.
\<close>

theorem reader_scenario_never_returns:
  "reader (\<lambda>n. True) stof_decimal
     (Some ''HIERARCHY ROOT Hips { OFFSET 0 0 0 CHANNELS 3 Xposition Yposition Zposition End Site { OFFSET 0 5 0 } } MOTION Frames: 2 Frame Time: 0.0333333 0 0 0 1 0 0'')
   = None"
  by (simp add: reader_def reader_tokens_def scenario_tokens read_token_def scenario_hierarchy
      scenario_header frame_loop_never)

text \<open>
  C3. The claim: in each frame the motion phase visits the joints in the order of their
  discovery, parent before children, children in declaration order. The code visits the
  first root and then pushes one and the same child without end: whenever hierarchy and
  header are read, there is at least one frame and the first root has a child, the reader
  does not return and no child is ever visited.
\<close>

theorem motion_traversal_never_reaches_child:
  assumes "root_loop stof c ts [] [] [] = (Inr True, c', ts', heap, root # roots, q)"
    and "motion_header stof c' ts' = (Inr (Some (nbFrames, timeFrame)), c'', ts'')"
    and "0 < nbFrames"
    and "children (heap ! root) \<noteq> []"
  shows "reader_tokens host stof (''HIERARCHY'' # c # ts) = None"
  using assms by (simp add: reader_tokens_def read_token_def frame_loop_never)

text \<open>A root with two JOINT children, each ending in an End Site, and one frame.\<close>

lemma two_children_hierarchy:
  "root_loop stof_decimal ''ROOT''
     [''Hips'', ''{'', ''OFFSET'', ''0'', ''0'', ''0'', ''CHANNELS'', ''3'', ''Xposition'',
      ''Yposition'', ''Zposition'',
      ''JOINT'', ''Chest'', ''{'', ''OFFSET'', ''0'', ''5'', ''0'', ''CHANNELS'', ''3'',
      ''Zrotation'', ''Xrotation'', ''Yrotation'',
      ''End'', ''Site'', ''{'', ''OFFSET'', ''0'', ''5'', ''0'', ''}'', ''}'',
      ''JOINT'', ''Leg'', ''{'', ''OFFSET'', ''1'', ''0'', ''0'', ''CHANNELS'', ''3'',
      ''Zrotation'', ''Xrotation'', ''Yrotation'',
      ''End'', ''Site'', ''{'', ''OFFSET'', ''0'', ''-5'', ''0'', ''}'', ''}'', ''}'',
      ''MOTION'', ''Frames:'', ''1'', ''Frame'', ''Time:'', ''0.0333333'',
      ''0'', ''0'', ''0'', ''0'', ''0'', ''0'', ''0'', ''0'', ''0''] [] [] [] =
   (Inr True, ''MOTION'',
    [''Frames:'', ''1'', ''Frame'', ''Time:'', ''0.0333333'',
     ''0'', ''0'', ''0'', ''0'', ''0'', ''0'', ''0'', ''0'', ''0''],
    [\<lparr>name = ''Hips'', offset = [Some (0, 0), Some (0, 0), Some (0, 0)],
       channels = [''Xposition'', ''Yposition'', ''Zposition''], jointObj = None, parent = None,
       children = [1, 3], channelValues = []\<rparr>,
     \<lparr>name = ''Chest'', offset = [Some (0, 0), Some (5, 0), Some (0, 0)],
       channels = [''Zrotation'', ''Xrotation'', ''Yrotation''], jointObj = None,
       parent = Some 0, children = [2], channelValues = []\<rparr>,
     \<lparr>name = ''Site'', offset = [Some (0, 0), Some (5, 0), Some (0, 0)], channels = [],
       jointObj = None, parent = Some 1, children = [], channelValues = []\<rparr>,
     \<lparr>name = ''Leg'', offset = [Some (1, 0), Some (0, 0), Some (0, 0)],
       channels = [''Zrotation'', ''Xrotation'', ''Yrotation''], jointObj = None,
       parent = Some 0, children = [4], channelValues = []\<rparr>,
     \<lparr>name = ''Site'', offset = [Some (0, 0), Some (- 5, 0), Some (0, 0)], channels = [],
       jointObj = None, parent = Some 3, children = [], channelValues = []\<rparr>],
    [0], [])"
  by code_simp

lemma two_children_header:
  "motion_header stof_decimal ''MOTION''
     [''Frames:'', ''1'', ''Frame'', ''Time:'', ''0.0333333'',
      ''0'', ''0'', ''0'', ''0'', ''0'', ''0'', ''0'', ''0'', ''0''] =
   (Inr (Some (1, (333333, - 7))), ''0.0333333'',
    [''0'', ''0'', ''0'', ''0'', ''0'', ''0'', ''0'', ''0'', ''0''])"
  by code_simp

theorem motion_traversal_never_reaches_child_witness:
  "reader_tokens (\<lambda>n. True) stof_decimal
     [''HIERARCHY'', ''ROOT'',
      ''Hips'', ''{'', ''OFFSET'', ''0'', ''0'', ''0'', ''CHANNELS'', ''3'', ''Xposition'',
      ''Yposition'', ''Zposition'',
      ''JOINT'', ''Chest'', ''{'', ''OFFSET'', ''0'', ''5'', ''0'', ''CHANNELS'', ''3'',
      ''Zrotation'', ''Xrotation'', ''Yrotation'',
      ''End'', ''Site'', ''{'', ''OFFSET'', ''0'', ''5'', ''0'', ''}'', ''}'',
      ''JOINT'', ''Leg'', ''{'', ''OFFSET'', ''1'', ''0'', ''0'', ''CHANNELS'', ''3'',
      ''Zrotation'', ''Xrotation'', ''Yrotation'',
      ''End'', ''Site'', ''{'', ''OFFSET'', ''0'', ''-5'', ''0'', ''}'', ''}'', ''}'',
      ''MOTION'', ''Frames:'', ''1'', ''Frame'', ''Time:'', ''0.0333333'',
      ''0'', ''0'', ''0'', ''0'', ''0'', ''0'', ''0'', ''0'', ''0''] = None"
  by (rule motion_traversal_never_reaches_child
        [OF two_children_hierarchy two_children_header]) simp_all

subsection \<open>The grammar of a node\<close>

lemma stof_decimal_0: "stof_decimal ''0'' = Inr (0, 0)"
  by code_simp

lemma stof_decimal_5: "stof_decimal ''5'' = Inr (5, 0)"
  by code_simp

text \<open>
  How a failure and a pass go through the loops: a \<open>false\<close> from readNode or a failure of
  the inner loop ends the outer loop with a failure, a failure of the outer loop is the
  failure status of the reader, and a pass that succeeds hands the rest of the tokens to
  the rest of the same loop.
\<close>

lemma root_loop_readNode_fails:
  assumes "fst (readNode stof new_Node ts) = Inr False"
  shows "fst (root_loop stof ''ROOT'' ts heap roots q) = Inr False"
  using assms
  by (cases "readNode stof new_Node ts")
     (simp add: root_loop.simps[of stof "''ROOT''" ts])

lemma root_loop_joint_loop_fails:
  assumes "readNode stof new_Node ts = (Inr True, node', ts')"
    and "fst (joint_loop stof ''ROOT'' ts' (heap @ [node']) (q @ [length heap])) = Inr False"
  shows "fst (root_loop stof ''ROOT'' ts heap roots q) = Inr False"
  using assms
  by (cases "joint_loop stof ''ROOT'' ts' (heap @ [node']) (q @ [length heap])")
     (simp add: root_loop.simps[of stof "''ROOT''" ts])

lemma reader_hierarchy_fails:
  assumes "fst (root_loop stof c ts [] [] []) = Inr False"
  shows "map_option fst (reader_tokens host stof (''HIERARCHY'' # c # ts)) = Some (Inr kFailure)"
  using assms
  by (cases "root_loop stof c ts [] [] []")
     (simp add: reader_tokens_def read_token_def)

lemma joint_loop_JOINT_passes:
  assumes "q \<noteq> []" and "readNode stof new_Node ts = (Inr True, node', ts')"
  shows "joint_loop stof c (''JOINT'' # ts) heap q =
         joint_loop stof ''JOINT'' ts' (attach (heap @ [node']) (last q) (length heap))
           (q @ [length heap])"
  using assms
  by (subst joint_loop.simps) (simp add: read_token_def Let_def)

lemma joint_loop_End_passes:
  assumes "q \<noteq> []" and "end_site stof ''End'' ts heap q = (Inr True, c2, ts2, heap2)"
  shows "joint_loop stof c (''End'' # ts) heap q = joint_loop stof c2 ts2 heap2 q"
  using assms
  by (subst joint_loop.simps) (simp add: read_token_def)

lemma joint_loop_closes:
  assumes "q \<noteq> []"
  shows "joint_loop stof c (''}'' # ts) heap q = joint_loop stof ''}'' ts heap (butlast q)"
  using assms
  by (subst joint_loop.simps) (simp add: read_token_def)

lemma root_loop_passes:
  assumes "readNode stof new_Node ts = (Inr True, node', ts')"
    and "joint_loop stof ''ROOT'' ts' (heap @ [node']) (q @ [length heap]) =
           (Inr True, c2, ts2, heap2, q2)"
    and "read_token c2 ts2 = (c3, ts3)"
  shows "root_loop stof ''ROOT'' ts heap roots q =
         root_loop stof c3 ts3 heap2 (roots @ [length heap]) q2"
  using assms
  by (subst root_loop.simps) simp

lemma stoi_0: "stoi ''0'' = Inr 0"
  by code_simp

lemma readNode_no_channels:
  assumes "stof a = Inr x" and "stof b = Inr y" and "stof d = Inr z"
  shows "readNode stof new_Node (nm # ''{'' # ''OFFSET'' # a # b # d # ''CHANNELS'' # ''0'' # rest) =
           (Inr True, new_Node\<lparr>name := nm, offset := [Some x, Some y, Some z]\<rparr>, rest)"
  using assms
  by (simp add: readNode_def read_token_def offset_loop.simps numeral_2_eq_2 new_Node_def
      stoi_0 channel_loop.simps)

text \<open>
  C6, as amended. The CHANNELS keyword is mandatory in a ROOT or JOINT node. When the
  token after the three offsets is anything else, readNode returns false with the name and
  the offsets stored and no channel; the reader returns failure when the node is the
  first ROOT, and the inner loop returns failure when it is a JOINT. That failure is the
  reader's: a \<open>false\<close> from readNode or a failure of the inner loop is a failure of the
  outer loop, and a failure of the outer loop is the failure status of the reader. Before
  it, a JOINT that is read, an End Site that is read and a closing brace each hand the
  rest of the tokens to the same inner loop, and a root whose joints are read hands them
  to the outer loop.
\<close>

theorem readNode_requires_CHANNELS:
  assumes "stof a = Inr x" and "stof b = Inr y" and "stof d = Inr z"
    and "t \<noteq> ''CHANNELS''"
    and "nodeQueue \<noteq> []"
  shows "readNode stof node (nm # ''{'' # ''OFFSET'' # a # b # d # t # rest) =
           (Inr False,
            node\<lparr>name := nm, offset := (offset node)[0 := Some x, 1 := Some y, 2 := Some z]\<rparr>,
            rest)
       \<and> reader_tokens host stof
           (''HIERARCHY'' # ''ROOT'' # nm # ''{'' # ''OFFSET'' # a # b # d # t # rest) =
           Some (Inr kFailure,
                 [new_Node\<lparr>name := nm, offset := [Some x, Some y, Some z]\<rparr>], [], rest)
       \<and> joint_loop stof c (''JOINT'' # nm # ''{'' # ''OFFSET'' # a # b # d # t # rest)
           heap nodeQueue =
           (Inr False, ''JOINT'', rest,
            heap @ [new_Node\<lparr>name := nm, offset := [Some x, Some y, Some z]\<rparr>], nodeQueue)
       \<and> (fst (readNode stof new_Node ts) = Inr False \<longrightarrow>
            fst (root_loop stof ''ROOT'' ts heap roots q) = Inr False)
       \<and> (readNode stof new_Node ts = (Inr True, node', ts') \<longrightarrow>
            fst (joint_loop stof ''ROOT'' ts' (heap @ [node']) (q @ [length heap])) = Inr False \<longrightarrow>
            fst (root_loop stof ''ROOT'' ts heap roots q) = Inr False)
       \<and> (fst (root_loop stof c ts [] [] []) = Inr False \<longrightarrow>
            map_option fst (reader_tokens host stof (''HIERARCHY'' # c # ts)) =
            Some (Inr kFailure))
       \<and> (readNode stof new_Node ts = (Inr True, node', ts') \<longrightarrow>
            joint_loop stof c (''JOINT'' # ts) heap nodeQueue =
            joint_loop stof ''JOINT'' ts' (attach (heap @ [node']) (last nodeQueue) (length heap))
              (nodeQueue @ [length heap]))
       \<and> (end_site stof ''End'' ts heap nodeQueue = (Inr True, c2, ts2, heap2) \<longrightarrow>
            joint_loop stof c (''End'' # ts) heap nodeQueue =
            joint_loop stof c2 ts2 heap2 nodeQueue)
       \<and> joint_loop stof c (''}'' # ts) heap nodeQueue =
           joint_loop stof ''}'' ts heap (butlast nodeQueue)
       \<and> (readNode stof new_Node ts = (Inr True, node', ts') \<longrightarrow>
            joint_loop stof ''ROOT'' ts' (heap @ [node']) (q @ [length heap]) =
              (Inr True, c2, ts2, heap2, q2) \<longrightarrow>
            read_token c2 ts2 = (c3, ts3) \<longrightarrow>
            root_loop stof ''ROOT'' ts heap roots q =
            root_loop stof c3 ts3 heap2 (roots @ [length heap]) q2)"
proof -
  have rn: "readNode stof node (nm # ''{'' # ''OFFSET'' # a # b # d # t # rest) =
           (Inr False,
            node\<lparr>name := nm, offset := (offset node)[0 := Some x, 1 := Some y, 2 := Some z]\<rparr>,
            rest)" for node :: "'a Node"
    using assms(1-4)
    by (simp add: readNode_def read_token_def offset_loop.simps numeral_2_eq_2)
  have rd: "reader_tokens host stof
           (''HIERARCHY'' # ''ROOT'' # nm # ''{'' # ''OFFSET'' # a # b # d # t # rest) =
           Some (Inr kFailure,
                 [new_Node\<lparr>name := nm, offset := [Some x, Some y, Some z]\<rparr>], [], rest)"
    by (simp add: reader_tokens_def read_token_def root_loop.simps rn new_Node_def)
  have jl: "joint_loop stof c (''JOINT'' # nm # ''{'' # ''OFFSET'' # a # b # d # t # rest)
           heap nodeQueue =
           (Inr False, ''JOINT'', rest,
            heap @ [new_Node\<lparr>name := nm, offset := [Some x, Some y, Some z]\<rparr>], nodeQueue)"
    using assms(5)
    by (subst joint_loop.simps) (simp add: read_token_def rn new_Node_def)
  show ?thesis
  proof (intro conjI impI, goal_cases)
    case 1
    show ?case by (rule rn)
  next
    case 2
    show ?case by (rule rd)
  next
    case 3
    show ?case by (rule jl)
  next
    case 4
    then show ?case by (rule root_loop_readNode_fails)
  next
    case 5
    then show ?case by (rule root_loop_joint_loop_fails)
  next
    case 6
    then show ?case by (rule reader_hierarchy_fails)
  next
    case 7
    with assms(5) show ?case by (rule joint_loop_JOINT_passes)
  next
    case 8
    with assms(5) show ?case by (rule joint_loop_End_passes)
  next
    case 9
    from assms(5) show ?case by (rule joint_loop_closes)
  next
    case 10
    then show ?case by (rule root_loop_passes)
  qed
qed

theorem readNode_requires_CHANNELS_witness:
  "readNode stof_decimal (new_Node :: (int \<times> int) Node)
     [''Hips'', ''{'', ''OFFSET'', ''0'', ''5'', ''0'', ''}'', ''MOTION''] =
     (Inr False,
      \<lparr>name = ''Hips'', offset = [Some (0, 0), Some (5, 0), Some (0, 0)], channels = [],
         jointObj = None, parent = None, children = [], channelValues = []\<rparr>,
      [''MOTION''])
   \<and> reader_tokens (\<lambda>n. True) stof_decimal
     [''HIERARCHY'', ''ROOT'', ''Hips'', ''{'', ''OFFSET'', ''0'', ''5'', ''0'', ''}'', ''MOTION''] =
     Some (Inr kFailure,
       [\<lparr>name = ''Hips'', offset = [Some (0, 0), Some (5, 0), Some (0, 0)], channels = [],
          jointObj = None, parent = None, children = [], channelValues = []\<rparr>],
       [], [''MOTION''])
   \<and> joint_loop stof_decimal ''ROOT''
     [''JOINT'', ''Hips'', ''{'', ''OFFSET'', ''0'', ''5'', ''0'', ''}'', ''MOTION'']
     [new_Node] [0] =
     (Inr False, ''JOINT'', [''MOTION''],
      [new_Node,
       \<lparr>name = ''Hips'', offset = [Some (0, 0), Some (5, 0), Some (0, 0)], channels = [],
          jointObj = None, parent = None, children = [], channelValues = []\<rparr>],
      [0])
   \<and> fst (root_loop stof_decimal ''ROOT'' [''Hips'', ''{'', ''OFFSET'', ''0'', ''5'', ''0'', ''}'']
        [] [] []) = Inr False
   \<and> fst (root_loop stof_decimal ''ROOT''
        [''Hips'', ''{'', ''OFFSET'', ''0'', ''0'', ''0'', ''CHANNELS'', ''0'',
         ''JOINT'', ''Leg'', ''{'', ''OFFSET'', ''0'', ''5'', ''0'', ''}''] [] [] []) = Inr False
   \<and> map_option fst (reader_tokens (\<lambda>n. True) stof_decimal
        [''HIERARCHY'', ''ROOT'', ''Hips'', ''{'', ''OFFSET'', ''0'', ''0'', ''0'', ''CHANNELS'', ''0'',
         ''JOINT'', ''Leg'', ''{'', ''OFFSET'', ''0'', ''5'', ''0'', ''}'']) = Some (Inr kFailure)
   \<and> fst (joint_loop stof_decimal ''ROOT''
        [''JOINT'', ''Leg'', ''{'', ''OFFSET'', ''0'', ''5'', ''0'', ''CHANNELS'', ''0'',
         ''JOINT'', ''Toe'', ''{'', ''OFFSET'', ''0'', ''5'', ''0'', ''}'']
        [new_Node\<lparr>name := ''Hips''\<rparr>] [0]) = Inr False
   \<and> fst (joint_loop stof_decimal ''ROOT''
        [''End'', ''Site'', ''{'', ''OFFSET'', ''0'', ''5'', ''0'', ''}'',
         ''JOINT'', ''Toe'', ''{'', ''OFFSET'', ''0'', ''5'', ''0'', ''}'']
        [new_Node\<lparr>name := ''Hips''\<rparr>] [0]) = Inr False
   \<and> fst (joint_loop stof_decimal ''ROOT''
        [''}'', ''JOINT'', ''Toe'', ''{'', ''OFFSET'', ''0'', ''5'', ''0'', ''}'']
        [new_Node\<lparr>name := ''Hips''\<rparr>, new_Node\<lparr>name := ''Leg''\<rparr>] [0, 1]) = Inr False
   \<and> fst (root_loop stof_decimal ''ROOT''
        [''Hips'', ''{'', ''OFFSET'', ''0'', ''0'', ''0'', ''CHANNELS'', ''0'', ''}'',
         ''ROOT'', ''Arm'', ''{'', ''OFFSET'', ''0'', ''5'', ''0'', ''}''] [] [] []) = Inr False"
proof -
  note T = readNode_requires_CHANNELS
    [OF stof_decimal_0 stof_decimal_5 stof_decimal_0, where t = "''}''" and host = "\<lambda>n. True"]
  let ?hips = "\<lparr>name = ''Hips'', offset = [Some (0, 0), Some (0, 0), Some (0 :: int, 0 :: int)],
                 channels = [], jointObj = None, parent = None, children = [],
                 channelValues = []\<rparr>"
  let ?leg = "\<lparr>name = ''Leg'', offset = [Some (0, 0), Some (5, 0), Some (0 :: int, 0 :: int)],
                channels = [], jointObj = None, parent = None, children = [],
                channelValues = []\<rparr>"
  let ?H = "new_Node\<lparr>name := ''Hips''\<rparr> :: (int \<times> int) Node"
  let ?L = "new_Node\<lparr>name := ''Leg''\<rparr> :: (int \<times> int) Node"
  let ?toe = "[''JOINT'', ''Toe'', ''{'', ''OFFSET'', ''0'', ''5'', ''0'', ''}'']"
  let ?arm = "[''Arm'', ''{'', ''OFFSET'', ''0'', ''5'', ''0'', ''}'']"
  from T[where nodeQueue = "[0]" and node = new_Node and nm = "''Hips''"
      and rest = "[''MOTION'']" and c = "''ROOT''" and heap = "[new_Node]"]
  have 1: "readNode stof_decimal (new_Node :: (int \<times> int) Node)
     [''Hips'', ''{'', ''OFFSET'', ''0'', ''5'', ''0'', ''}'', ''MOTION''] =
     (Inr False,
      \<lparr>name = ''Hips'', offset = [Some (0, 0), Some (5, 0), Some (0, 0)], channels = [],
         jointObj = None, parent = None, children = [], channelValues = []\<rparr>,
      [''MOTION''])"
    and 2: "reader_tokens (\<lambda>n. True) stof_decimal
     [''HIERARCHY'', ''ROOT'', ''Hips'', ''{'', ''OFFSET'', ''0'', ''5'', ''0'', ''}'', ''MOTION''] =
     Some (Inr kFailure,
       [\<lparr>name = ''Hips'', offset = [Some (0, 0), Some (5, 0), Some (0, 0)], channels = [],
          jointObj = None, parent = None, children = [], channelValues = []\<rparr>],
       [], [''MOTION''])"
    and 3: "joint_loop stof_decimal ''ROOT''
     [''JOINT'', ''Hips'', ''{'', ''OFFSET'', ''0'', ''5'', ''0'', ''}'', ''MOTION'']
     [new_Node] [0] =
     (Inr False, ''JOINT'', [''MOTION''],
      [new_Node,
       \<lparr>name = ''Hips'', offset = [Some (0, 0), Some (5, 0), Some (0, 0)], channels = [],
          jointObj = None, parent = None, children = [], channelValues = []\<rparr>],
      [0])"
    by (simp_all add: new_Node_def)
  have h4: "fst (readNode stof_decimal (new_Node :: (int \<times> int) Node)
              [''Hips'', ''{'', ''OFFSET'', ''0'', ''5'', ''0'', ''}'']) = Inr False"
    by code_simp
  from T[where nodeQueue = "[0]" and ts = "[''Hips'', ''{'', ''OFFSET'', ''0'', ''5'', ''0'', ''}'']"
      and heap = "[]" and roots = "[]" and q = "[]"] h4
  have 4: "fst (root_loop stof_decimal ''ROOT'' [''Hips'', ''{'', ''OFFSET'', ''0'', ''5'', ''0'', ''}'']
        [] [] []) = Inr False"
    by simp
  have h5a: "readNode stof_decimal new_Node
        [''Hips'', ''{'', ''OFFSET'', ''0'', ''0'', ''0'', ''CHANNELS'', ''0'',
         ''JOINT'', ''Leg'', ''{'', ''OFFSET'', ''0'', ''5'', ''0'', ''}''] =
        (Inr True, ?hips, [''JOINT'', ''Leg'', ''{'', ''OFFSET'', ''0'', ''5'', ''0'', ''}''])"
    by code_simp
  have h5b: "fst (joint_loop stof_decimal ''ROOT''
        [''JOINT'', ''Leg'', ''{'', ''OFFSET'', ''0'', ''5'', ''0'', ''}'']
        ([] @ [?hips]) ([] @ [length ([] :: (int \<times> int) Node list)])) = Inr False"
    by code_simp
  from T[where nodeQueue = "[0]"
      and ts = "[''Hips'', ''{'', ''OFFSET'', ''0'', ''0'', ''0'', ''CHANNELS'', ''0'',
                 ''JOINT'', ''Leg'', ''{'', ''OFFSET'', ''0'', ''5'', ''0'', ''}'']"
      and heap = "[]" and roots = "[]" and q = "[]" and node' = ?hips
      and ts' = "[''JOINT'', ''Leg'', ''{'', ''OFFSET'', ''0'', ''5'', ''0'', ''}'']"] h5a h5b
  have 5: "fst (root_loop stof_decimal ''ROOT''
        [''Hips'', ''{'', ''OFFSET'', ''0'', ''0'', ''0'', ''CHANNELS'', ''0'',
         ''JOINT'', ''Leg'', ''{'', ''OFFSET'', ''0'', ''5'', ''0'', ''}''] [] [] []) = Inr False"
    by simp
  from T[where nodeQueue = "[0]" and c = "''ROOT''"
      and ts = "[''Hips'', ''{'', ''OFFSET'', ''0'', ''0'', ''0'', ''CHANNELS'', ''0'',
                 ''JOINT'', ''Leg'', ''{'', ''OFFSET'', ''0'', ''5'', ''0'', ''}'']"] 5
  have 6: "map_option fst (reader_tokens (\<lambda>n. True) stof_decimal
        [''HIERARCHY'', ''ROOT'', ''Hips'', ''{'', ''OFFSET'', ''0'', ''0'', ''0'', ''CHANNELS'', ''0'',
         ''JOINT'', ''Leg'', ''{'', ''OFFSET'', ''0'', ''5'', ''0'', ''}'']) = Some (Inr kFailure)"
    by simp
  have h7a: "readNode stof_decimal new_Node
        ([''Leg'', ''{'', ''OFFSET'', ''0'', ''5'', ''0'', ''CHANNELS'', ''0''] @ ?toe) =
        (Inr True, ?leg, ?toe)"
    by code_simp
  have h7b: "fst (joint_loop stof_decimal ''JOINT'' ?toe
        (attach ([?H] @ [?leg]) (last [0]) (length [?H])) ([0] @ [length [?H]])) = Inr False"
    by code_simp
  from T[where nodeQueue = "[0]" and c = "''ROOT''" and heap = "[?H]"
      and ts = "[''Leg'', ''{'', ''OFFSET'', ''0'', ''5'', ''0'', ''CHANNELS'', ''0''] @ ?toe"
      and node' = ?leg and ts' = ?toe] h7a h7b
  have 7: "fst (joint_loop stof_decimal ''ROOT''
        [''JOINT'', ''Leg'', ''{'', ''OFFSET'', ''0'', ''5'', ''0'', ''CHANNELS'', ''0'',
         ''JOINT'', ''Toe'', ''{'', ''OFFSET'', ''0'', ''5'', ''0'', ''}'']
        [?H] [0]) = Inr False"
    by simp
  let ?heap2 = "[\<lparr>name = ''Hips'', offset = [None, None, None], channels = [],
                   jointObj = None, parent = None, children = [1], channelValues = []\<rparr>,
                 \<lparr>name = ''Site'', offset = [Some (0, 0), Some (5, 0), Some (0 :: int, 0 :: int)],
                   channels = [], jointObj = None, parent = Some 0, children = [],
                   channelValues = []\<rparr>]"
  have h8a: "end_site stof_decimal ''End''
        ([''Site'', ''{'', ''OFFSET'', ''0'', ''5'', ''0'', ''}''] @ ?toe) [?H] [0] =
        (Inr True, ''}'', ?toe, ?heap2)"
    by code_simp
  have h8b: "fst (joint_loop stof_decimal ''}'' ?toe ?heap2 [0]) = Inr False"
    by code_simp
  from T[where nodeQueue = "[0]" and c = "''ROOT''" and heap = "[?H]"
      and ts = "[''Site'', ''{'', ''OFFSET'', ''0'', ''5'', ''0'', ''}''] @ ?toe"
      and ?c2.0 = "''}''" and ?ts2.0 = ?toe and ?heap2.0 = ?heap2] h8a h8b
  have 8: "fst (joint_loop stof_decimal ''ROOT''
        [''End'', ''Site'', ''{'', ''OFFSET'', ''0'', ''5'', ''0'', ''}'',
         ''JOINT'', ''Toe'', ''{'', ''OFFSET'', ''0'', ''5'', ''0'', ''}'']
        [?H] [0]) = Inr False"
    by simp
  have h9: "fst (joint_loop stof_decimal ''}'' ?toe [?H, ?L] (butlast [0, 1])) = Inr False"
    by code_simp
  from T[where nodeQueue = "[0, 1]" and c = "''ROOT''" and heap = "[?H, ?L]" and ts = ?toe] h9
  have 9: "fst (joint_loop stof_decimal ''ROOT''
        [''}'', ''JOINT'', ''Toe'', ''{'', ''OFFSET'', ''0'', ''5'', ''0'', ''}'']
        [?H, ?L] [0, 1]) = Inr False"
    by simp
  have h10a: "readNode stof_decimal new_Node
        ([''Hips'', ''{'', ''OFFSET'', ''0'', ''0'', ''0'', ''CHANNELS'', ''0'', ''}'', ''ROOT''] @ ?arm) =
        (Inr True, ?hips, ''}'' # ''ROOT'' # ?arm)"
    by code_simp
  have h10b: "joint_loop stof_decimal ''ROOT'' (''}'' # ''ROOT'' # ?arm)
        ([] @ [?hips]) ([] @ [length ([] :: (int \<times> int) Node list)]) =
        (Inr True, ''}'', ''ROOT'' # ?arm, [?hips], [])"
    by code_simp
  have h10c: "read_token ''}'' (''ROOT'' # ?arm) = (''ROOT'', ?arm)"
    by (simp add: read_token_def)
  have h10d: "fst (root_loop stof_decimal ''ROOT'' ?arm [?hips]
        ([] @ [length ([] :: (int \<times> int) Node list)]) []) = Inr False"
    by code_simp
  from T[where nodeQueue = "[0]" and heap = "[]" and roots = "[]" and q = "[]"
      and ts = "[''Hips'', ''{'', ''OFFSET'', ''0'', ''0'', ''0'', ''CHANNELS'', ''0'', ''}'', ''ROOT''] @ ?arm"
      and node' = ?hips and ts' = "''}'' # ''ROOT'' # ?arm"
      and ?c2.0 = "''}''" and ?ts2.0 = "''ROOT'' # ?arm" and ?heap2.0 = "[?hips]" and ?q2.0 = "[]"
      and ?c3.0 = "''ROOT''" and ?ts3.0 = ?arm] h10a h10b h10c h10d
  have 10: "fst (root_loop stof_decimal ''ROOT''
        [''Hips'', ''{'', ''OFFSET'', ''0'', ''0'', ''0'', ''CHANNELS'', ''0'', ''}'',
         ''ROOT'', ''Arm'', ''{'', ''OFFSET'', ''0'', ''5'', ''0'', ''}''] [] [] []) = Inr False"
    by simp
  from 1 2 3 4 5 6 7 8 9 10 show ?thesis
    by (intro conjI)
qed

text \<open>
  C6 as stated fails: a root with a name, a brace and an OFFSET with three floats but no
  CHANNELS is rejected.
\<close>

theorem reader_rejects_node_without_CHANNELS:
  "reader (\<lambda>n. True) stof_decimal
     (Some ''HIERARCHY ROOT Hips { OFFSET 0 0 0 } MOTION Frames: 0 Frame Time: 0.0333333'') =
   Some (Inr kFailure,
     [\<lparr>name = ''Hips'', offset = [Some (0, 0), Some (0, 0), Some (0, 0)], channels = [],
        jointObj = None, parent = None, children = [], channelValues = []\<rparr>],
     [], [''MOTION'', ''Frames:'', ''0'', ''Frame'', ''Time:'', ''0.0333333''])"
  by code_simp

text \<open>
  C7, as amended. After the token \<open>End\<close> the next token, whatever it is, becomes the name
  of the leaf and is compared with nothing. Then \<open>{\<close>, \<open>OFFSET\<close>, three floats and \<open>}\<close>
  are required: with them the leaf is attached to the back of the queue, not pushed, and
  the loop goes on with the tokens that follow; with another token in the place of \<open>{\<close>,
  of \<open>OFFSET\<close> or of \<open>}\<close> the inner loop returns failure, and the reader returns failure
  when the End is the first thing in the first ROOT. That failure is the reader's: a
  failure of the inner loop is a failure of the outer loop, and a failure of the outer
  loop is the failure status of the reader. Before it, a JOINT that is read, an End Site
  that is read and a closing brace each hand the rest of the tokens to the same inner
  loop, and a root whose joints are read hands them to the outer loop.
\<close>

theorem end_site_name_unchecked:
  assumes "nodeQueue \<noteq> []"
    and "stof a = Inr x" and "stof b = Inr y" and "stof d = Inr z"
  shows "joint_loop stof c (''End'' # nm # ''{'' # ''OFFSET'' # a # b # d # ''}'' # rest)
           heap nodeQueue =
         joint_loop stof ''}'' rest
           (attach (heap @ [new_Node\<lparr>name := nm, offset := [Some x, Some y, Some z]\<rparr>])
              (last nodeQueue) (length heap))
           nodeQueue
       \<and> (t \<noteq> ''{'' \<longrightarrow>
            joint_loop stof c (''End'' # nm # t # rest) heap nodeQueue =
            (Inr False, t, rest, heap @ [new_Node\<lparr>name := nm\<rparr>], nodeQueue))
       \<and> (t \<noteq> ''OFFSET'' \<longrightarrow>
            joint_loop stof c (''End'' # nm # ''{'' # t # rest) heap nodeQueue =
            (Inr False, t, rest, heap @ [new_Node\<lparr>name := nm\<rparr>], nodeQueue))
       \<and> (t \<noteq> ''}'' \<longrightarrow>
            joint_loop stof c (''End'' # nm # ''{'' # ''OFFSET'' # a # b # d # t # rest)
              heap nodeQueue =
            (Inr False, t, rest,
             attach (heap @ [new_Node\<lparr>name := nm, offset := [Some x, Some y, Some z]\<rparr>])
               (last nodeQueue) (length heap),
             nodeQueue))
       \<and> (t \<noteq> ''{'' \<longrightarrow>
            reader_tokens host stof
              (''HIERARCHY'' # ''ROOT'' # rn # ''{'' # ''OFFSET'' # a # b # d # ''CHANNELS'' # ''0'' #
               ''End'' # nm # t # rest) =
            Some (Inr kFailure,
                  [new_Node\<lparr>name := rn, offset := [Some x, Some y, Some z]\<rparr>,
                   new_Node\<lparr>name := nm\<rparr>], [], rest))
       \<and> (t \<noteq> ''OFFSET'' \<longrightarrow>
            reader_tokens host stof
              (''HIERARCHY'' # ''ROOT'' # rn # ''{'' # ''OFFSET'' # a # b # d # ''CHANNELS'' # ''0'' #
               ''End'' # nm # ''{'' # t # rest) =
            Some (Inr kFailure,
                  [new_Node\<lparr>name := rn, offset := [Some x, Some y, Some z]\<rparr>,
                   new_Node\<lparr>name := nm\<rparr>], [], rest))
       \<and> (t \<noteq> ''}'' \<longrightarrow>
            reader_tokens host stof
              (''HIERARCHY'' # ''ROOT'' # rn # ''{'' # ''OFFSET'' # a # b # d # ''CHANNELS'' # ''0'' #
               ''End'' # nm # ''{'' # ''OFFSET'' # a # b # d # t # rest) =
            Some (Inr kFailure,
                  [new_Node\<lparr>name := rn, offset := [Some x, Some y, Some z], children := [1]\<rparr>,
                   new_Node\<lparr>name := nm, offset := [Some x, Some y, Some z], parent := Some 0\<rparr>],
                  [], rest))
       \<and> (readNode stof new_Node ts = (Inr True, node', ts') \<longrightarrow>
            fst (joint_loop stof ''ROOT'' ts' (heap @ [node']) (q @ [length heap])) = Inr False \<longrightarrow>
            fst (root_loop stof ''ROOT'' ts heap roots q) = Inr False)
       \<and> (fst (root_loop stof c ts [] [] []) = Inr False \<longrightarrow>
            map_option fst (reader_tokens host stof (''HIERARCHY'' # c # ts)) =
            Some (Inr kFailure))
       \<and> (readNode stof new_Node ts = (Inr True, node', ts') \<longrightarrow>
            joint_loop stof c (''JOINT'' # ts) heap nodeQueue =
            joint_loop stof ''JOINT'' ts' (attach (heap @ [node']) (last nodeQueue) (length heap))
              (nodeQueue @ [length heap]))
       \<and> (end_site stof ''End'' ts heap nodeQueue = (Inr True, c2, ts2, heap2) \<longrightarrow>
            joint_loop stof c (''End'' # ts) heap nodeQueue =
            joint_loop stof c2 ts2 heap2 nodeQueue)
       \<and> joint_loop stof c (''}'' # ts) heap nodeQueue =
           joint_loop stof ''}'' ts heap (butlast nodeQueue)
       \<and> (readNode stof new_Node ts = (Inr True, node', ts') \<longrightarrow>
            joint_loop stof ''ROOT'' ts' (heap @ [node']) (q @ [length heap]) =
              (Inr True, c2, ts2, heap2, q2) \<longrightarrow>
            read_token c2 ts2 = (c3, ts3) \<longrightarrow>
            root_loop stof ''ROOT'' ts heap roots q =
            root_loop stof c3 ts3 heap2 (roots @ [length heap]) q2)"
proof -
  have ok: "joint_loop stof c (''End'' # nm # ''{'' # ''OFFSET'' # a # b # d # ''}'' # rest)
           heap nodeQueue =
         joint_loop stof ''}'' rest
           (attach (heap @ [new_Node\<lparr>name := nm, offset := [Some x, Some y, Some z]\<rparr>])
              (last nodeQueue) (length heap))
           nodeQueue"
    using assms
    by (subst joint_loop.simps)
       (simp add: read_token_def end_site_def offset_loop.simps new_Node_def)
  have f1: "joint_loop stof c (''End'' # nm # t # rest) heap q =
            (Inr False, t, rest, heap @ [new_Node\<lparr>name := nm\<rparr>], q)"
    if "t \<noteq> ''{''" and "q \<noteq> []" for c heap and q :: "nat list"
    using that by (subst joint_loop.simps) (simp add: read_token_def end_site_def)
  have f2: "joint_loop stof c (''End'' # nm # ''{'' # t # rest) heap q =
            (Inr False, t, rest, heap @ [new_Node\<lparr>name := nm\<rparr>], q)"
    if "t \<noteq> ''OFFSET''" and "q \<noteq> []" for c heap and q :: "nat list"
    using that by (subst joint_loop.simps) (simp add: read_token_def end_site_def)
  have f3: "joint_loop stof c (''End'' # nm # ''{'' # ''OFFSET'' # a # b # d # t # rest) heap q =
            (Inr False, t, rest,
             attach (heap @ [new_Node\<lparr>name := nm, offset := [Some x, Some y, Some z]\<rparr>])
               (last q) (length heap),
             q)"
    if "t \<noteq> ''}''" and "q \<noteq> []" for c heap and q :: "nat list"
    using that assms(2-4)
    by (subst joint_loop.simps)
       (simp add: read_token_def end_site_def offset_loop.simps new_Node_def)
  note rn = readNode_no_channels[OF assms(2-4)]
  have r1: "reader_tokens host stof
              (''HIERARCHY'' # ''ROOT'' # rn # ''{'' # ''OFFSET'' # a # b # d # ''CHANNELS'' # ''0'' #
               ''End'' # nm # t # rest) =
            Some (Inr kFailure,
                  [new_Node\<lparr>name := rn, offset := [Some x, Some y, Some z]\<rparr>,
                   new_Node\<lparr>name := nm\<rparr>], [], rest)" if "t \<noteq> ''{''"
    using that
    by (simp add: reader_tokens_def read_token_def root_loop.simps rn f1)
  have r2: "reader_tokens host stof
              (''HIERARCHY'' # ''ROOT'' # rn # ''{'' # ''OFFSET'' # a # b # d # ''CHANNELS'' # ''0'' #
               ''End'' # nm # ''{'' # t # rest) =
            Some (Inr kFailure,
                  [new_Node\<lparr>name := rn, offset := [Some x, Some y, Some z]\<rparr>,
                   new_Node\<lparr>name := nm\<rparr>], [], rest)" if "t \<noteq> ''OFFSET''"
    using that
    by (simp add: reader_tokens_def read_token_def root_loop.simps rn f2)
  have r3: "reader_tokens host stof
              (''HIERARCHY'' # ''ROOT'' # rn # ''{'' # ''OFFSET'' # a # b # d # ''CHANNELS'' # ''0'' #
               ''End'' # nm # ''{'' # ''OFFSET'' # a # b # d # t # rest) =
            Some (Inr kFailure,
                  [new_Node\<lparr>name := rn, offset := [Some x, Some y, Some z], children := [1]\<rparr>,
                   new_Node\<lparr>name := nm, offset := [Some x, Some y, Some z], parent := Some 0\<rparr>],
                  [], rest)" if "t \<noteq> ''}''"
    using that
    by (simp add: reader_tokens_def read_token_def root_loop.simps rn f3)
       (simp add: attach_def new_Node_def)
  show ?thesis
  proof (intro conjI impI, goal_cases)
    case 1
    show ?case by (rule ok)
  next
    case 2
    then show ?case using assms(1) by (rule f1)
  next
    case 3
    then show ?case using assms(1) by (rule f2)
  next
    case 4
    then show ?case using assms(1) by (rule f3)
  next
    case 5
    then show ?case by (rule r1)
  next
    case 6
    then show ?case by (rule r2)
  next
    case 7
    then show ?case by (rule r3)
  next
    case 8
    then show ?case by (rule root_loop_joint_loop_fails)
  next
    case 9
    then show ?case by (rule reader_hierarchy_fails)
  next
    case 10
    with assms(1) show ?case by (rule joint_loop_JOINT_passes)
  next
    case 11
    with assms(1) show ?case by (rule joint_loop_End_passes)
  next
    case 12
    from assms(1) show ?case by (rule joint_loop_closes)
  next
    case 13
    then show ?case by (rule root_loop_passes)
  qed
qed

theorem end_site_name_unchecked_witness:
  "joint_loop stof_decimal ''ROOT''
     [''End'', ''Foo'', ''{'', ''OFFSET'', ''0'', ''5'', ''0'', ''}'', ''}'', ''MOTION'']
     [new_Node\<lparr>name := ''Hips''\<rparr>] [0] =
   (Inr True, ''}'', [''MOTION''],
    [\<lparr>name = ''Hips'', offset = [None, None, None], channels = [], jointObj = None,
        parent = None, children = [1], channelValues = []\<rparr>,
     \<lparr>name = ''Foo'', offset = [Some (0, 0), Some (5, 0), Some (0, 0)], channels = [],
        jointObj = None, parent = Some 0, children = [], channelValues = []\<rparr>],
    [])
   \<and> joint_loop stof_decimal ''ROOT'' [''End'', ''Foo'', ''OFFSET'', ''0'']
       [new_Node\<lparr>name := ''Hips''\<rparr>] [0] =
     (Inr False, ''OFFSET'', [''0''],
      [new_Node\<lparr>name := ''Hips''\<rparr>, new_Node\<lparr>name := ''Foo''\<rparr>], [0])
   \<and> joint_loop stof_decimal ''ROOT'' [''End'', ''Foo'', ''{'', ''0'', ''5'']
       [new_Node\<lparr>name := ''Hips''\<rparr>] [0] =
     (Inr False, ''0'', [''5''],
      [new_Node\<lparr>name := ''Hips''\<rparr>, new_Node\<lparr>name := ''Foo''\<rparr>], [0])
   \<and> joint_loop stof_decimal ''ROOT''
       [''End'', ''Foo'', ''{'', ''OFFSET'', ''0'', ''5'', ''0'', ''JOINT'', ''Leg'']
       [new_Node\<lparr>name := ''Hips''\<rparr>] [0] =
     (Inr False, ''JOINT'', [''Leg''],
      [\<lparr>name = ''Hips'', offset = [None, None, None], channels = [], jointObj = None,
          parent = None, children = [1], channelValues = []\<rparr>,
       \<lparr>name = ''Foo'', offset = [Some (0, 0), Some (5, 0), Some (0, 0)], channels = [],
          jointObj = None, parent = Some 0, children = [], channelValues = []\<rparr>],
      [0])
   \<and> reader_tokens (\<lambda>n. True) stof_decimal
       [''HIERARCHY'', ''ROOT'', ''Hips'', ''{'', ''OFFSET'', ''0'', ''5'', ''0'', ''CHANNELS'', ''0'',
        ''End'', ''Foo'', ''OFFSET'', ''0''] =
     Some (Inr kFailure,
       [\<lparr>name = ''Hips'', offset = [Some (0, 0), Some (5, 0), Some (0, 0)], channels = [],
          jointObj = None, parent = None, children = [], channelValues = []\<rparr>,
        new_Node\<lparr>name := ''Foo''\<rparr>],
       [], [''0''])
   \<and> reader_tokens (\<lambda>n. True) stof_decimal
       [''HIERARCHY'', ''ROOT'', ''Hips'', ''{'', ''OFFSET'', ''0'', ''5'', ''0'', ''CHANNELS'', ''0'',
        ''End'', ''Foo'', ''{'', ''0'', ''5''] =
     Some (Inr kFailure,
       [\<lparr>name = ''Hips'', offset = [Some (0, 0), Some (5, 0), Some (0, 0)], channels = [],
          jointObj = None, parent = None, children = [], channelValues = []\<rparr>,
        new_Node\<lparr>name := ''Foo''\<rparr>],
       [], [''5''])
   \<and> reader_tokens (\<lambda>n. True) stof_decimal
       [''HIERARCHY'', ''ROOT'', ''Hips'', ''{'', ''OFFSET'', ''0'', ''5'', ''0'', ''CHANNELS'', ''0'',
        ''End'', ''Foo'', ''{'', ''OFFSET'', ''0'', ''5'', ''0'', ''JOINT'', ''Leg''] =
     Some (Inr kFailure,
       [\<lparr>name = ''Hips'', offset = [Some (0, 0), Some (5, 0), Some (0, 0)], channels = [],
          jointObj = None, parent = None, children = [1], channelValues = []\<rparr>,
        \<lparr>name = ''Foo'', offset = [Some (0, 0), Some (5, 0), Some (0, 0)], channels = [],
          jointObj = None, parent = Some 0, children = [], channelValues = []\<rparr>],
       [], [''Leg''])
   \<and> fst (root_loop stof_decimal ''ROOT''
        [''Hips'', ''{'', ''OFFSET'', ''0'', ''0'', ''0'', ''CHANNELS'', ''0'',
         ''End'', ''Foo'', ''OFFSET'', ''0''] [] [] []) = Inr False
   \<and> map_option fst (reader_tokens (\<lambda>n. True) stof_decimal
        [''HIERARCHY'', ''ROOT'', ''Hips'', ''{'', ''OFFSET'', ''0'', ''0'', ''0'', ''CHANNELS'', ''0'',
         ''End'', ''Foo'', ''OFFSET'', ''0'']) = Some (Inr kFailure)
   \<and> fst (joint_loop stof_decimal ''ROOT''
        [''JOINT'', ''Leg'', ''{'', ''OFFSET'', ''0'', ''5'', ''0'', ''CHANNELS'', ''0'',
         ''End'', ''Foo'', ''OFFSET'', ''0'']
        [new_Node\<lparr>name := ''Hips''\<rparr>] [0]) = Inr False
   \<and> fst (joint_loop stof_decimal ''ROOT''
        [''End'', ''Site'', ''{'', ''OFFSET'', ''0'', ''5'', ''0'', ''}'',
         ''End'', ''Foo'', ''OFFSET'', ''0'']
        [new_Node\<lparr>name := ''Hips''\<rparr>] [0]) = Inr False
   \<and> fst (joint_loop stof_decimal ''ROOT''
        [''}'', ''End'', ''Foo'', ''OFFSET'', ''0'']
        [new_Node\<lparr>name := ''Hips''\<rparr>, new_Node\<lparr>name := ''Leg''\<rparr>] [0, 1]) = Inr False
   \<and> fst (root_loop stof_decimal ''ROOT''
        [''Hips'', ''{'', ''OFFSET'', ''0'', ''0'', ''0'', ''CHANNELS'', ''0'', ''}'',
         ''ROOT'', ''Arm'', ''{'', ''OFFSET'', ''0'', ''0'', ''0'', ''CHANNELS'', ''0'',
         ''End'', ''Foo'', ''OFFSET'', ''0''] [] [] []) = Inr False"
proof -
  note inst = end_site_name_unchecked
    [OF _ stof_decimal_0 stof_decimal_5 stof_decimal_0, where nodeQueue = "[0]"
       and c = "''ROOT''" and nm = "''Foo''" and heap = "[new_Node\<lparr>name := ''Hips''\<rparr>]"
       and host = "\<lambda>n. True"]
  note T = end_site_name_unchecked
    [OF _ stof_decimal_0 stof_decimal_5 stof_decimal_0, where host = "\<lambda>n. True"
       and nm = "''Foo''" and rn = "''Hips''" and rest = "[]" and t = "''x''"]
  let ?hips = "\<lparr>name = ''Hips'', offset = [Some (0, 0), Some (0, 0), Some (0 :: int, 0 :: int)],
                 channels = [], jointObj = None, parent = None, children = [],
                 channelValues = []\<rparr>"
  let ?arm = "\<lparr>name = ''Arm'', offset = [Some (0, 0), Some (0, 0), Some (0 :: int, 0 :: int)],
                 channels = [], jointObj = None, parent = None, children = [],
                 channelValues = []\<rparr>"
  let ?leg = "\<lparr>name = ''Leg'', offset = [Some (0, 0), Some (5, 0), Some (0 :: int, 0 :: int)],
                channels = [], jointObj = None, parent = None, children = [],
                channelValues = []\<rparr>"
  let ?H = "new_Node\<lparr>name := ''Hips''\<rparr> :: (int \<times> int) Node"
  let ?L = "new_Node\<lparr>name := ''Leg''\<rparr> :: (int \<times> int) Node"
  let ?bad = "[''End'', ''Foo'', ''OFFSET'', ''0'']"
  have after: "joint_loop stof_decimal ''}'' [''}'', ''MOTION'']
          (attach ([new_Node\<lparr>name := ''Hips''\<rparr>] @
              [new_Node\<lparr>name := ''Foo'', offset := [Some (0, 0), Some (5, 0), Some (0, 0)]\<rparr>])
             (last [0]) (length [new_Node\<lparr>name := ''Hips''\<rparr> :: (int \<times> int) Node]))
          [0] =
        (Inr True, ''}'', [''MOTION''],
         [\<lparr>name = ''Hips'', offset = [None, None, None], channels = [], jointObj = None,
             parent = None, children = [1], channelValues = []\<rparr>,
          \<lparr>name = ''Foo'', offset = [Some (0, 0), Some (5, 0), Some (0, 0)], channels = [],
             jointObj = None, parent = Some 0, children = [], channelValues = []\<rparr>],
         [])"
    by code_simp
  have attached: "attach ([new_Node\<lparr>name := ''Hips''\<rparr>] @
              [new_Node\<lparr>name := ''Foo'', offset := [Some (0, 0), Some (5, 0), Some (0, 0)]\<rparr>])
             (last [0]) (length [new_Node\<lparr>name := ''Hips''\<rparr> :: (int \<times> int) Node]) =
         [\<lparr>name = ''Hips'', offset = [None, None, None], channels = [], jointObj = None,
             parent = None, children = [1], channelValues = []\<rparr>,
          \<lparr>name = ''Foo'', offset = [Some (0, 0), Some (5, 0), Some (0 :: int, 0 :: int)],
             channels = [], jointObj = None, parent = Some 0, children = [],
             channelValues = []\<rparr>]"
    by code_simp
  from inst[where rest = "[''}'', ''MOTION'']" and t = "''x''"] after
  have 1: "joint_loop stof_decimal ''ROOT''
     [''End'', ''Foo'', ''{'', ''OFFSET'', ''0'', ''5'', ''0'', ''}'', ''}'', ''MOTION'']
     [new_Node\<lparr>name := ''Hips''\<rparr>] [0] =
   (Inr True, ''}'', [''MOTION''],
    [\<lparr>name = ''Hips'', offset = [None, None, None], channels = [], jointObj = None,
        parent = None, children = [1], channelValues = []\<rparr>,
     \<lparr>name = ''Foo'', offset = [Some (0, 0), Some (5, 0), Some (0, 0)], channels = [],
        jointObj = None, parent = Some 0, children = [], channelValues = []\<rparr>],
    [])"
    by simp
  from inst[where rest = "[''0'']" and t = "''OFFSET''"]
  have 2: "joint_loop stof_decimal ''ROOT'' [''End'', ''Foo'', ''OFFSET'', ''0'']
       [new_Node\<lparr>name := ''Hips''\<rparr>] [0] =
     (Inr False, ''OFFSET'', [''0''],
      [new_Node\<lparr>name := ''Hips''\<rparr>, new_Node\<lparr>name := ''Foo''\<rparr>], [0])"
    by simp
  from inst[where rest = "[''5'']" and t = "''0''"]
  have 3: "joint_loop stof_decimal ''ROOT'' [''End'', ''Foo'', ''{'', ''0'', ''5'']
       [new_Node\<lparr>name := ''Hips''\<rparr>] [0] =
     (Inr False, ''0'', [''5''],
      [new_Node\<lparr>name := ''Hips''\<rparr>, new_Node\<lparr>name := ''Foo''\<rparr>], [0])"
    by simp
  from inst[where rest = "[''Leg'']" and t = "''JOINT''"] attached
  have 4: "joint_loop stof_decimal ''ROOT''
       [''End'', ''Foo'', ''{'', ''OFFSET'', ''0'', ''5'', ''0'', ''JOINT'', ''Leg'']
       [new_Node\<lparr>name := ''Hips''\<rparr>] [0] =
     (Inr False, ''JOINT'', [''Leg''],
      [\<lparr>name = ''Hips'', offset = [None, None, None], channels = [], jointObj = None,
          parent = None, children = [1], channelValues = []\<rparr>,
       \<lparr>name = ''Foo'', offset = [Some (0, 0), Some (5, 0), Some (0, 0)], channels = [],
          jointObj = None, parent = Some 0, children = [], channelValues = []\<rparr>],
      [0])"
    by simp
  from inst[where rest = "[''0'']" and t = "''OFFSET''" and rn = "''Hips''"]
  have 5: "reader_tokens (\<lambda>n. True) stof_decimal
       [''HIERARCHY'', ''ROOT'', ''Hips'', ''{'', ''OFFSET'', ''0'', ''5'', ''0'', ''CHANNELS'', ''0'',
        ''End'', ''Foo'', ''OFFSET'', ''0''] =
     Some (Inr kFailure,
       [\<lparr>name = ''Hips'', offset = [Some (0, 0), Some (5, 0), Some (0, 0)], channels = [],
          jointObj = None, parent = None, children = [], channelValues = []\<rparr>,
        new_Node\<lparr>name := ''Foo''\<rparr>],
       [], [''0''])"
    by (simp add: new_Node_def)
  from inst[where rest = "[''5'']" and t = "''0''" and rn = "''Hips''"]
  have 6: "reader_tokens (\<lambda>n. True) stof_decimal
       [''HIERARCHY'', ''ROOT'', ''Hips'', ''{'', ''OFFSET'', ''0'', ''5'', ''0'', ''CHANNELS'', ''0'',
        ''End'', ''Foo'', ''{'', ''0'', ''5''] =
     Some (Inr kFailure,
       [\<lparr>name = ''Hips'', offset = [Some (0, 0), Some (5, 0), Some (0, 0)], channels = [],
          jointObj = None, parent = None, children = [], channelValues = []\<rparr>,
        new_Node\<lparr>name := ''Foo''\<rparr>],
       [], [''5''])"
    by (simp add: new_Node_def)
  from inst[where rest = "[''Leg'']" and t = "''JOINT''" and rn = "''Hips''"]
  have 7: "reader_tokens (\<lambda>n. True) stof_decimal
       [''HIERARCHY'', ''ROOT'', ''Hips'', ''{'', ''OFFSET'', ''0'', ''5'', ''0'', ''CHANNELS'', ''0'',
        ''End'', ''Foo'', ''{'', ''OFFSET'', ''0'', ''5'', ''0'', ''JOINT'', ''Leg''] =
     Some (Inr kFailure,
       [\<lparr>name = ''Hips'', offset = [Some (0, 0), Some (5, 0), Some (0, 0)], channels = [],
          jointObj = None, parent = None, children = [1], channelValues = []\<rparr>,
        \<lparr>name = ''Foo'', offset = [Some (0, 0), Some (5, 0), Some (0, 0)], channels = [],
          jointObj = None, parent = Some 0, children = [], channelValues = []\<rparr>],
       [], [''Leg''])"
    by (simp add: new_Node_def)
  have h8a: "readNode stof_decimal new_Node
        ([''Hips'', ''{'', ''OFFSET'', ''0'', ''0'', ''0'', ''CHANNELS'', ''0''] @ ?bad) =
        (Inr True, ?hips, ?bad)"
    by code_simp
  have h8b: "fst (joint_loop stof_decimal ''ROOT'' ?bad
        ([] @ [?hips]) ([] @ [length ([] :: (int \<times> int) Node list)])) = Inr False"
    by code_simp
  from T[where nodeQueue = "[0]" and heap = "[]" and roots = "[]" and q = "[]"
      and ts = "[''Hips'', ''{'', ''OFFSET'', ''0'', ''0'', ''0'', ''CHANNELS'', ''0''] @ ?bad"
      and node' = ?hips and ts' = ?bad] h8a h8b
  have 8: "fst (root_loop stof_decimal ''ROOT''
        [''Hips'', ''{'', ''OFFSET'', ''0'', ''0'', ''0'', ''CHANNELS'', ''0'',
         ''End'', ''Foo'', ''OFFSET'', ''0''] [] [] []) = Inr False"
    by simp
  from T[where nodeQueue = "[0]" and c = "''ROOT''"
      and ts = "[''Hips'', ''{'', ''OFFSET'', ''0'', ''0'', ''0'', ''CHANNELS'', ''0''] @ ?bad"] 8
  have 9: "map_option fst (reader_tokens (\<lambda>n. True) stof_decimal
        [''HIERARCHY'', ''ROOT'', ''Hips'', ''{'', ''OFFSET'', ''0'', ''0'', ''0'', ''CHANNELS'', ''0'',
         ''End'', ''Foo'', ''OFFSET'', ''0'']) = Some (Inr kFailure)"
    by simp
  have h10a: "readNode stof_decimal new_Node
        ([''Leg'', ''{'', ''OFFSET'', ''0'', ''5'', ''0'', ''CHANNELS'', ''0''] @ ?bad) =
        (Inr True, ?leg, ?bad)"
    by code_simp
  have h10b: "fst (joint_loop stof_decimal ''JOINT'' ?bad
        (attach ([?H] @ [?leg]) (last [0]) (length [?H])) ([0] @ [length [?H]])) = Inr False"
    by code_simp
  from T[where nodeQueue = "[0]" and c = "''ROOT''" and heap = "[?H]"
      and ts = "[''Leg'', ''{'', ''OFFSET'', ''0'', ''5'', ''0'', ''CHANNELS'', ''0''] @ ?bad"
      and node' = ?leg and ts' = ?bad] h10a h10b
  have 10: "fst (joint_loop stof_decimal ''ROOT''
        [''JOINT'', ''Leg'', ''{'', ''OFFSET'', ''0'', ''5'', ''0'', ''CHANNELS'', ''0'',
         ''End'', ''Foo'', ''OFFSET'', ''0'']
        [?H] [0]) = Inr False"
    by simp
  let ?heap2 = "[\<lparr>name = ''Hips'', offset = [None, None, None], channels = [],
                   jointObj = None, parent = None, children = [1], channelValues = []\<rparr>,
                 \<lparr>name = ''Site'', offset = [Some (0, 0), Some (5, 0), Some (0 :: int, 0 :: int)],
                   channels = [], jointObj = None, parent = Some 0, children = [],
                   channelValues = []\<rparr>]"
  have h11a: "end_site stof_decimal ''End''
        ([''Site'', ''{'', ''OFFSET'', ''0'', ''5'', ''0'', ''}''] @ ?bad) [?H] [0] =
        (Inr True, ''}'', ?bad, ?heap2)"
    by code_simp
  have h11b: "fst (joint_loop stof_decimal ''}'' ?bad ?heap2 [0]) = Inr False"
    by code_simp
  from T[where nodeQueue = "[0]" and c = "''ROOT''" and heap = "[?H]"
      and ts = "[''Site'', ''{'', ''OFFSET'', ''0'', ''5'', ''0'', ''}''] @ ?bad"
      and ?c2.0 = "''}''" and ?ts2.0 = ?bad and ?heap2.0 = ?heap2] h11a h11b
  have 11: "fst (joint_loop stof_decimal ''ROOT''
        [''End'', ''Site'', ''{'', ''OFFSET'', ''0'', ''5'', ''0'', ''}'',
         ''End'', ''Foo'', ''OFFSET'', ''0'']
        [?H] [0]) = Inr False"
    by simp
  have h12: "fst (joint_loop stof_decimal ''}'' ?bad [?H, ?L] (butlast [0, 1])) = Inr False"
    by code_simp
  from T[where nodeQueue = "[0, 1]" and c = "''ROOT''" and heap = "[?H, ?L]" and ts = ?bad] h12
  have 12: "fst (joint_loop stof_decimal ''ROOT''
        [''}'', ''End'', ''Foo'', ''OFFSET'', ''0'']
        [?H, ?L] [0, 1]) = Inr False"
    by simp
  let ?second = "[''Arm'', ''{'', ''OFFSET'', ''0'', ''0'', ''0'', ''CHANNELS'', ''0'',
                  ''End'', ''Foo'', ''OFFSET'', ''0'']"
  have h13a: "readNode stof_decimal new_Node
        ([''Hips'', ''{'', ''OFFSET'', ''0'', ''0'', ''0'', ''CHANNELS'', ''0'', ''}'', ''ROOT''] @
         ?second) =
        (Inr True, ?hips, ''}'' # ''ROOT'' # ?second)"
    by code_simp
  have h13b: "joint_loop stof_decimal ''ROOT'' (''}'' # ''ROOT'' # ?second)
        ([] @ [?hips]) ([] @ [length ([] :: (int \<times> int) Node list)]) =
        (Inr True, ''}'', ''ROOT'' # ?second, [?hips], [])"
    by code_simp
  have h13c: "read_token ''}'' (''ROOT'' # ?second) = (''ROOT'', ?second)"
    by (simp add: read_token_def)
  have h13d: "fst (root_loop stof_decimal ''ROOT'' ?second [?hips]
        ([] @ [length ([] :: (int \<times> int) Node list)]) []) = Inr False"
    by code_simp
  from T[where nodeQueue = "[0]" and heap = "[]" and roots = "[]" and q = "[]"
      and ts = "[''Hips'', ''{'', ''OFFSET'', ''0'', ''0'', ''0'', ''CHANNELS'', ''0'', ''}'', ''ROOT''] @
                ?second"
      and node' = ?hips and ts' = "''}'' # ''ROOT'' # ?second"
      and ?c2.0 = "''}''" and ?ts2.0 = "''ROOT'' # ?second" and ?heap2.0 = "[?hips]" and ?q2.0 = "[]"
      and ?c3.0 = "''ROOT''" and ?ts3.0 = ?second] h13a h13b h13c h13d
  have 13: "fst (root_loop stof_decimal ''ROOT''
        [''Hips'', ''{'', ''OFFSET'', ''0'', ''0'', ''0'', ''CHANNELS'', ''0'', ''}'',
         ''ROOT'', ''Arm'', ''{'', ''OFFSET'', ''0'', ''0'', ''0'', ''CHANNELS'', ''0'',
         ''End'', ''Foo'', ''OFFSET'', ''0''] [] [] []) = Inr False"
    by simp
  from 1 2 3 4 5 6 7 8 9 10 11 12 13 show ?thesis
    by (intro conjI)
qed

text \<open>
  C7 as stated fails: \<open>End Foo { OFFSET 0 5 0 }\<close> is accepted as a leaf named Foo and the
  reader returns success.
\<close>

theorem reader_accepts_End_without_Site:
  "reader (\<lambda>n. True) stof_decimal
     (Some ''HIERARCHY ROOT Hips { OFFSET 0 0 0 CHANNELS 3 Xposition Yposition Zposition End Foo { OFFSET 0 5 0 } } MOTION Frames: 0 Frame Time: 0.0333333'') =
   Some (Inr kSuccess,
     [\<lparr>name = ''Hips'', offset = [Some (0, 0), Some (0, 0), Some (0, 0)],
        channels = [''Xposition'', ''Yposition'', ''Zposition''], jointObj = Some 0,
        parent = None, children = [1], channelValues = []\<rparr>,
      \<lparr>name = ''Foo'', offset = [Some (0, 0), Some (5, 0), Some (0, 0)], channels = [],
        jointObj = Some 1, parent = Some 0, children = [], channelValues = []\<rparr>],
     [\<lparr>req_offset = [Some (0, 0), Some (0, 0), Some (0, 0)],
        req_parent = None, req_handle = Some 0\<rparr>,
      \<lparr>req_offset = [Some (0, 0), Some (5, 0), Some (0, 0)],
        req_parent = Some 0, req_handle = Some 1\<rparr>],
     [])"
  by code_simp

subsection \<open>Numeric tokens\<close>































subsection \<open>Host binding\<close>

lemma same_tree_fields:
  assumes "same_tree h1 h2"
  shows "name (h1 ! a) = name (h2 ! a)" and "offset (h1 ! a) = offset (h2 ! a)"
    and "children (h1 ! a) = children (h2 ! a)"
proof -
  from assms have eq: "(h1 ! a)\<lparr>jointObj := None\<rparr> = (h2 ! a)\<lparr>jointObj := None\<rparr>"
    by (simp add: same_tree_def)
  from arg_cong[OF eq, of name] show "name (h1 ! a) = name (h2 ! a)" by simp
  from arg_cong[OF eq, of offset] show "offset (h1 ! a) = offset (h2 ! a)" by simp
  from arg_cong[OF eq, of children] show "children (h1 ! a) = children (h2 ! a)" by simp
qed

lemma same_tree_update:
  assumes "same_tree h1 h2"
  shows "same_tree (h1[n := (h1 ! n)\<lparr>jointObj := x\<rparr>]) (h2[n := (h2 ! n)\<lparr>jointObj := y\<rparr>])"
proof -
  from assms have len: "length h1 = length h2"
    and eq: "\<And>a. (h1 ! a)\<lparr>jointObj := None\<rparr> = (h2 ! a)\<lparr>jointObj := None\<rparr>"
    by (simp_all add: same_tree_def)
  show ?thesis
  proof (cases "n < length h1")
    case True
    with len eq show ?thesis
      by (auto simp: same_tree_def nth_list_update)
  next
    case False
    with len have "h1[n := (h1 ! n)\<lparr>jointObj := x\<rparr>] = h1"
      and "h2[n := (h2 ! n)\<lparr>jointObj := y\<rparr>] = h2"
      by (simp_all add: list_update_beyond)
    with assms show ?thesis by simp
  qed
qed

lemma mayaCreate_host_independent:
  assumes "mayaCreate host heap scene todo = Some r"
  shows "\<forall>heap2 scene2. same_tree heap heap2 \<and> same_calls scene scene2 \<longrightarrow>
           (\<exists>r2. mayaCreate host2 heap2 scene2 todo = Some r2
                 \<and> same_tree (fst r) (fst r2) \<and> same_calls (snd r) (snd r2))"
proof (rule mayaCreate.raw_induct
    [where P = "\<lambda>host heap scene todo r.
        \<forall>heap2 scene2. same_tree heap heap2 \<and> same_calls scene scene2 \<longrightarrow>
           (\<exists>r2. mayaCreate host2 heap2 scene2 todo = Some r2
                 \<and> same_tree (fst r) (fst r2) \<and> same_calls (snd r) (snd r2))", OF _ assms],
    goal_cases)
  case (1 mc host heap scene todo r)
  show ?case
  proof (intro allI impI, elim conjE)
    fix heap2 :: "'a Node list" and scene2 :: "'a request list"
    assume st: "same_tree heap heap2" and sc: "same_calls scene scene2"
    show "\<exists>r2. mayaCreate host2 heap2 scene2 todo = Some r2
                 \<and> same_tree (fst r) (fst r2) \<and> same_calls (snd r) (snd r2)"
    proof (cases todo)
      case Nil
      with 1(2) st sc show ?thesis
        by (subst mayaCreate.simps) auto
    next
      case (Cons node rest)
      let ?h1 = "if host (length scene) then Some (length scene) else None"
      let ?h2 = "if host2 (length scene2) then Some (length scene2) else None"
      let ?c1 = "\<lparr>req_offset = offset (heap ! node),
                   req_parent = (case parent (heap ! node) of None \<Rightarrow> None
                                 | Some p \<Rightarrow> jointObj (heap ! p)),
                   req_handle = ?h1\<rparr>"
      let ?c2 = "\<lparr>req_offset = offset (heap2 ! node),
                   req_parent = (case parent (heap2 ! node) of None \<Rightarrow> None
                                 | Some p \<Rightarrow> jointObj (heap2 ! p)),
                   req_handle = ?h2\<rparr>"
      from 1(2) Cons have run:
        "mc host (heap[node := (heap ! node)\<lparr>jointObj := ?h1\<rparr>]) (scene @ [?c1])
           (children (heap ! node) @ rest) = Some r"
        by (simp add: Let_def)
      have st': "same_tree (heap[node := (heap ! node)\<lparr>jointObj := ?h1\<rparr>])
                   (heap2[node := (heap2 ! node)\<lparr>jointObj := ?h2\<rparr>])"
        by (rule same_tree_update[OF st])
      have sc': "same_calls (scene @ [?c1]) (scene2 @ [?c2])"
        using sc same_tree_fields[OF st, of node] by (simp add: same_calls_def)
      from 1(1)[OF run] st' sc' obtain r2 where
        r2: "mayaCreate host2 (heap2[node := (heap2 ! node)\<lparr>jointObj := ?h2\<rparr>]) (scene2 @ [?c2])
               (children (heap ! node) @ rest) = Some r2"
        and res: "same_tree (fst r) (fst r2)" "same_calls (snd r) (snd r2)"
        by blast
      have "mayaCreate host2 heap2 scene2 todo = Some r2"
        using r2 Cons same_tree_fields(3)[OF st, of node]
        by (subst mayaCreate.simps) (simp add: Let_def)
      with res show ?thesis by blast
    qed
  qed
qed

lemma same_tree_refl: "same_tree heap heap"
  by (simp add: same_tree_def)

lemma mayaCreate_any_host:
  assumes "mayaCreate host heap [] todo = Some (heap1, scene1)"
  shows "\<exists>heap2 scene2. mayaCreate host2 heap [] todo = Some (heap2, scene2)
           \<and> map req_offset scene2 = map req_offset scene1"
proof -
  have "same_tree heap heap \<and> same_calls [] ([] :: 'a request list)"
    by (simp add: same_tree_refl same_calls_def)
  with mayaCreate_host_independent[OF assms, of host2]
  obtain r2 where "mayaCreate host2 heap [] todo = Some r2"
    and "same_calls scene1 (snd r2)"
    by fastforce
  then show ?thesis
    by (cases r2) (auto simp: same_calls_def)
qed

lemma reader_tokens_cases:
  assumes run: "reader_tokens host stof toks = Some (out, heap, scene, rest)"
  shows "(\<forall>host2. reader_tokens host2 stof toks = Some (out, heap, scene, rest)) \<or>
         (\<exists>heap4 roots. out = Inr kSuccess \<and> mayaCreate host heap4 [] roots = Some (heap, scene) \<and>
            (\<forall>host2 h s. mayaCreate host2 heap4 [] roots = Some (h, s) \<longrightarrow>
               reader_tokens host2 stof toks = Some (Inr kSuccess, h, s, rest)))"
proof -
  obtain c0 t0 where rt0: "read_token [] toks = (c0, t0)"
    by (cases "read_token [] toks")
  obtain c1 t1 where rt1: "read_token ''HIERARCHY'' t0 = (c1, t1)"
    by (cases "read_token ''HIERARCHY'' t0")
  obtain r c2 t2 heap2 roots q where
    hier: "root_loop stof c1 t1 [] [] [] = (r, c2, t2, heap2, roots, q)"
    by (cases "root_loop stof c1 t1 [] [] []")
  obtain m c3 t3 where head: "motion_header stof c2 t2 = (m, c3, t3)"
    by (cases "motion_header stof c2 t2")
  note early = reader_tokens_def rt0 rt1 hier head
  show ?thesis
  proof (cases "c0 = ''HIERARCHY'' \<and> r = Inr True \<and> (\<exists>n tf. m = Inr (Some (n, tf)))")
    case False
    have "reader_tokens h stof toks = reader_tokens host stof toks" for h
    proof (cases "c0 = ''HIERARCHY''")
      case no: False
      then show ?thesis by (simp add: reader_tokens_def rt0)
    next
      case yes: True
      with False show ?thesis
        by (auto simp: early split: sum.splits bool.splits option.splits)
    qed
    with run show ?thesis by simp
  next
    case True
    then obtain n tf where ok: "c0 = ''HIERARCHY''" "r = Inr True" "m = Inr (Some (n, tf))"
      by blast
    have unfold: "reader_tokens h stof toks =
        frame_loop heap2 t3 0 n roots [] \<bind>
          (\<lambda>(state, heap4, tokens4).
             if \<not> state then Some (Inr kFailure, heap4, [], tokens4)
             else mayaCreate h heap4 [] roots \<bind>
                    (\<lambda>(heap5, scene). Some (Inr kSuccess, heap5, scene, tokens4)))" for h
      by (simp add: early ok)
    from run unfold[of host] obtain state heap4 tokens4 where
      frames: "frame_loop heap2 t3 0 n roots [] = Some (state, heap4, tokens4)"
      by (cases "frame_loop heap2 t3 0 n roots []") auto
    show ?thesis
    proof (cases state)
      case False
      with frames unfold have "reader_tokens h stof toks = reader_tokens host stof toks" for h
        by simp
      with run show ?thesis by simp
    next
      case True
      with run frames unfold[of host] have
        "out = Inr kSuccess" "mayaCreate host heap4 [] roots = Some (heap, scene)"
        "rest = tokens4"
        by (auto simp: bind_eq_Some_conv)
      moreover from True frames unfold have
        "mayaCreate h heap4 [] roots = Some (h', s') \<Longrightarrow>
           reader_tokens h stof toks = Some (Inr kSuccess, h', s', tokens4)" for h h' s'
        by simp
      ultimately show ?thesis by blast
    qed
  qed
qed

text \<open>
  C9, as amended. A rejected creation request is surfaced nowhere and stops nothing:
  whatever the host answers, the reader returns the same outcome with the same tokens
  left, after as many requests, with the same translations in the same order.
\<close>

theorem host_answer_ignored:
  assumes "reader_tokens host stof toks = Some (out, heap, scene, rest)"
  shows "\<exists>heap2 scene2. reader_tokens host2 stof toks = Some (out, heap2, scene2, rest)
           \<and> length scene2 = length scene
           \<and> map req_offset scene2 = map req_offset scene"
proof -
  from reader_tokens_cases[OF assms] consider
    (same) "reader_tokens host2 stof toks = Some (out, heap, scene, rest)"
    | (created) heap4 roots where "out = Inr kSuccess"
        "mayaCreate host heap4 [] roots = Some (heap, scene)"
        "\<And>h s. mayaCreate host2 heap4 [] roots = Some (h, s) \<Longrightarrow>
               reader_tokens host2 stof toks = Some (Inr kSuccess, h, s, rest)"
    by blast
  then show ?thesis
  proof cases
    case same
    then show ?thesis by blast
  next
    case created
    from mayaCreate_any_host[OF created(2), of host2] obtain heap2 scene2 where
      "mayaCreate host2 heap4 [] roots = Some (heap2, scene2)"
      "map req_offset scene2 = map req_offset scene"
      by blast
    with created(1,3) map_eq_imp_length_eq[of req_offset scene2 req_offset scene]
    show ?thesis by blast
  qed
qed

lemma accepted_run:
  "reader_tokens (\<lambda>n. True) stof_decimal
     [''HIERARCHY'', ''ROOT'', ''Hips'', ''{'', ''OFFSET'', ''0'', ''0'', ''0'', ''CHANNELS'', ''3'',
      ''Xposition'', ''Yposition'', ''Zposition'', ''End'', ''Site'', ''{'', ''OFFSET'', ''0'', ''5'',
      ''0'', ''}'', ''}'', ''MOTION'', ''Frames:'', ''0'', ''Frame'', ''Time:'', ''0.0333333''] =
   Some (Inr kSuccess,
     [\<lparr>name = ''Hips'', offset = [Some (0, 0), Some (0, 0), Some (0, 0)],
        channels = [''Xposition'', ''Yposition'', ''Zposition''], jointObj = Some 0,
        parent = None, children = [1], channelValues = []\<rparr>,
      \<lparr>name = ''Site'', offset = [Some (0, 0), Some (5, 0), Some (0, 0)], channels = [],
        jointObj = Some 1, parent = Some 0, children = [], channelValues = []\<rparr>],
     [\<lparr>req_offset = [Some (0, 0), Some (0, 0), Some (0, 0)],
        req_parent = None, req_handle = Some 0\<rparr>,
      \<lparr>req_offset = [Some (0, 0), Some (5, 0), Some (0, 0)],
        req_parent = Some 0, req_handle = Some 1\<rparr>],
     [])"
  by code_simp

theorem host_answer_ignored_witness:
  "\<exists>heap2 scene2.
     reader_tokens (\<lambda>n. False) stof_decimal
       [''HIERARCHY'', ''ROOT'', ''Hips'', ''{'', ''OFFSET'', ''0'', ''0'', ''0'', ''CHANNELS'', ''3'',
        ''Xposition'', ''Yposition'', ''Zposition'', ''End'', ''Site'', ''{'', ''OFFSET'', ''0'', ''5'',
        ''0'', ''}'', ''}'', ''MOTION'', ''Frames:'', ''0'', ''Frame'', ''Time:'', ''0.0333333''] =
       Some (Inr kSuccess, heap2, scene2, [])
     \<and> length scene2 = 2
     \<and> map req_offset scene2 =
         [[Some (0, 0), Some (0, 0), Some (0, 0)], [Some (0, 0), Some (5, 0), Some (0, 0)]]"
  using host_answer_ignored[OF accepted_run, of "\<lambda>n. False"]
  by (simp add: numeral_2_eq_2)


text \<open>
  C9 as stated fails: with a host that rejects every request, the reader still requests a
  node for the End Site after the rejection for Hips (with a null parent handle) and
  returns success.
\<close>

theorem reader_ignores_host_rejection:
  "reader (\<lambda>n. False) stof_decimal
     (Some ''HIERARCHY ROOT Hips { OFFSET 0 0 0 CHANNELS 3 Xposition Yposition Zposition End Site { OFFSET 0 5 0 } } MOTION Frames: 0 Frame Time: 0.0333333'') =
   Some (Inr kSuccess,
     [\<lparr>name = ''Hips'', offset = [Some (0, 0), Some (0, 0), Some (0, 0)],
        channels = [''Xposition'', ''Yposition'', ''Zposition''], jointObj = None,
        parent = None, children = [1], channelValues = []\<rparr>,
      \<lparr>name = ''Site'', offset = [Some (0, 0), Some (5, 0), Some (0, 0)], channels = [],
        jointObj = None, parent = Some 0, children = [], channelValues = []\<rparr>],
     [\<lparr>req_offset = [Some (0, 0), Some (0, 0), Some (0, 0)],
        req_parent = None, req_handle = None\<rparr>,
      \<lparr>req_offset = [Some (0, 0), Some (5, 0), Some (0, 0)],
        req_parent = None, req_handle = None\<rparr>],
     [])"
  by code_simp


subsection \<open>End Site joints\<close>

text \<open>The inner loop, one case of its body at a time.\<close>

lemma joint_loop_Nil: "joint_loop stof c ts heap [] = (Inr True, c, ts, heap, [])"
  by (simp add: joint_loop.simps)

lemma joint_loop_JOINT:
  assumes "q \<noteq> []" and "read_token c ts = (''JOINT'', ts1)"
    and "readNode stof new_Node ts1 = (r, node2, ts2)"
  shows "joint_loop stof c ts heap q =
           (if r = Inr True then
              joint_loop stof ''JOINT'' ts2 (attach (heap @ [node2]) (last q) (length heap))
                (q @ [length heap])
            else (r, ''JOINT'', ts2, heap @ [node2], q))"
  using assms
  by (subst joint_loop.simps) (simp add: Let_def split: sum.splits bool.splits)

lemma joint_loop_End:
  assumes "q \<noteq> []" and "read_token c ts = (''End'', ts1)"
    and "end_site stof ''End'' ts1 heap q = (r, c2, ts2, heap2)"
  shows "joint_loop stof c ts heap q =
           (if r = Inr True then joint_loop stof c2 ts2 heap2 q else (r, c2, ts2, heap2, q))"
  using assms
  by (subst joint_loop.simps) (simp add: Let_def split: sum.splits bool.splits)

lemma joint_loop_close:
  assumes "q \<noteq> []" and "read_token c ts = (''}'', ts1)"
  shows "joint_loop stof c ts heap q = joint_loop stof ''}'' ts1 heap (butlast q)"
  using assms by (subst joint_loop.simps) simp

lemma joint_loop_other:
  assumes "q \<noteq> []" and "read_token c ts = (c1, ts1)"
    and "c1 \<noteq> ''JOINT''" and "c1 \<noteq> ''End''" and "c1 \<noteq> ''}''"
  shows "joint_loop stof c ts heap q = (Inr False, c1, ts1, heap, q)"
  using assms by (subst joint_loop.simps) simp

lemma joint_loop_ends_Nil: "joint_loop_ends stof c ts heap [] = []"
  by (simp add: joint_loop_ends.simps)

lemma joint_loop_ends_JOINT:
  assumes "q \<noteq> []" and "read_token c ts = (''JOINT'', ts1)"
    and "readNode stof new_Node ts1 = (r, node2, ts2)"
  shows "joint_loop_ends stof c ts heap q =
           (if r = Inr True then
              joint_loop_ends stof ''JOINT'' ts2 (attach (heap @ [node2]) (last q) (length heap))
                (q @ [length heap])
            else [])"
  using assms
  by (subst joint_loop_ends.simps) (simp add: Let_def split: sum.splits bool.splits)

lemma joint_loop_ends_End:
  assumes "q \<noteq> []" and "read_token c ts = (''End'', ts1)"
    and "end_site stof ''End'' ts1 heap q = (r, c2, ts2, heap2)"
  shows "joint_loop_ends stof c ts heap q =
           (if r = Inr True then (length heap, last q) # joint_loop_ends stof c2 ts2 heap2 q
            else [])"
  using assms
  by (subst joint_loop_ends.simps) (simp add: Let_def split: sum.splits bool.splits)

lemma joint_loop_ends_close:
  assumes "q \<noteq> []" and "read_token c ts = (''}'', ts1)"
  shows "joint_loop_ends stof c ts heap q = joint_loop_ends stof ''}'' ts1 heap (butlast q)"
  using assms by (subst joint_loop_ends.simps) simp

lemma joint_loop_ends_other:
  assumes "q \<noteq> []" and "read_token c ts = (c1, ts1)"
    and "c1 \<noteq> ''JOINT''" and "c1 \<noteq> ''End''" and "c1 \<noteq> ''}''"
  shows "joint_loop_ends stof c ts heap q = []"
  using assms by (subst joint_loop_ends.simps) simp

lemma joint_loop_cases_induct [case_names empty joint endsite close other]:
  fixes stof :: "string \<Rightarrow> conv_error + 'f"
  assumes empty: "\<And>c ts heap. P c ts heap []"
    and joint: "\<And>c ts heap q ts1 r node2 ts2.
        \<lbrakk>q \<noteq> []; read_token c ts = (''JOINT'', ts1);
         readNode stof (new_Node :: 'f Node) ts1 = (r, node2, ts2);
         r = Inr True \<Longrightarrow>
           P ''JOINT'' ts2 (attach (heap @ [node2]) (last q) (length heap)) (q @ [length heap])\<rbrakk>
        \<Longrightarrow> P c ts heap q"
    and endsite: "\<And>c ts heap q ts1 r c2 ts2 heap2.
        \<lbrakk>q \<noteq> []; read_token c ts = (''End'', ts1);
         end_site stof ''End'' ts1 heap q = (r, c2, ts2, heap2);
         r = Inr True \<Longrightarrow> P c2 ts2 heap2 q\<rbrakk>
        \<Longrightarrow> P c ts heap q"
    and close: "\<And>c ts heap q ts1.
        \<lbrakk>q \<noteq> []; read_token c ts = (''}'', ts1); P ''}'' ts1 heap (butlast q)\<rbrakk>
        \<Longrightarrow> P c ts heap q"
    and other: "\<And>c ts heap q c1 ts1.
        \<lbrakk>q \<noteq> []; read_token c ts = (c1, ts1); c1 \<noteq> ''JOINT''; c1 \<noteq> ''End''; c1 \<noteq> ''}''\<rbrakk>
        \<Longrightarrow> P c ts heap q"
  shows "P c ts (heap :: 'f Node list) q"
proof -
  have "stof' = stof \<Longrightarrow> P c ts heap q" for stof'
  proof (induction stof' c ts heap q rule: joint_loop.induct)
    case (1 stof' c ts heap q)
    note s = \<open>stof' = stof\<close>
    show ?case
    proof (cases "q = []")
      case True
      then show ?thesis by (simp add: empty)
    next
      case False
      obtain c1 ts1 where rt: "read_token c ts = (c1, ts1)"
        by (cases "read_token c ts")
      consider (j) "c1 = ''JOINT''" | (e) "c1 = ''End''" | (cl) "c1 = ''}''"
        | (o) "c1 \<noteq> ''JOINT''" "c1 \<noteq> ''End''" "c1 \<noteq> ''}''"
        by blast
      then show ?thesis
      proof cases
        case j
        obtain r node2 ts2 where rn: "readNode stof (new_Node :: 'f Node) ts1 = (r, node2, ts2)"
          by (cases "readNode stof (new_Node :: 'f Node) ts1")
        show ?thesis
        proof (rule joint[OF False rt[unfolded j] rn])
          assume "r = Inr True"
          with rn s have rn': "(Inr True, node2, ts2) = readNode stof' (new_Node :: 'f Node) ts1"
            by simp
          from "1.IH"(1)[OF False rt[symmetric] refl j refl rn' refl refl refl s]
          show "P ''JOINT'' ts2 (attach (heap @ [node2]) (last q) (length heap))
                  (q @ [length heap])"
            using j by simp
        qed
      next
        case e
        obtain r c2 ts2 heap2 where es: "end_site stof ''End'' ts1 heap q = (r, c2, ts2, heap2)"
          by (cases "end_site stof ''End'' ts1 heap q")
        show ?thesis
        proof (rule endsite[OF False rt[unfolded e] es])
          assume "r = Inr True"
          with es e s have es': "(Inr True, c2, ts2, heap2) = end_site stof' c1 ts1 heap q"
            by simp
          from e have nj: "c1 \<noteq> ''JOINT''" by simp
          from "1.IH"(2)[OF False rt[symmetric] refl nj e es' refl refl refl refl s]
          show "P c2 ts2 heap2 q" .
        qed
      next
        case cl
        then have nj: "c1 \<noteq> ''JOINT''" and ne: "c1 \<noteq> ''End''" by simp_all
        from "1.IH"(3)[OF False rt[symmetric] refl nj ne cl s]
        have "P ''}'' ts1 heap (butlast q)" using cl by simp
        from close[OF False rt[unfolded cl] this] show ?thesis .
      next
        case o
        from other[OF False rt o] show ?thesis .
      qed
    qed
  qed
  then show ?thesis by simp
qed


lemma grows_refl: "grows heap q heap"
  by (auto simp: grows_def intro: exI[of _ "[]"])

lemma grows_same:
  assumes "grows heap q heap'" and "a < length heap" and "a \<notin> set q"
  shows "heap' ! a = heap ! a"
  using assms by (force simp: grows_def)

lemma grows_children:
  assumes "grows heap q heap'" and "a < length heap"
  shows "set (children (heap ! a)) \<subseteq> set (children (heap' ! a))"
  using assms by (force simp: grows_def)

lemma grows_length: "grows heap q heap' \<Longrightarrow> length heap \<le> length heap'"
  by (simp add: grows_def)

lemma grows_subset:
  assumes "grows heap q1 heap'" and "set q1 \<subseteq> set q"
  shows "grows heap q heap'"
  unfolding grows_def
proof (intro conjI allI impI)
  show "length heap \<le> length heap'" using assms(1) by (simp add: grows_def)
next
  fix a assume "a < length heap"
  with assms(1) obtain ys where
    ys: "heap' ! a = (heap ! a)\<lparr>children := children (heap ! a) @ ys\<rparr>" "a \<notin> set q1 \<longrightarrow> ys = []"
    by (auto simp: grows_def)
  with assms(2) show "\<exists>ys. heap' ! a = (heap ! a)\<lparr>children := children (heap ! a) @ ys\<rparr>
                           \<and> (a \<notin> set q \<longrightarrow> ys = [])"
    by blast
qed

lemma length_attach: "length (attach heap back node) = length heap"
  by (simp add: attach_def Let_def)

lemma attach_new_node:
  assumes "p < length heap"
  shows "attach (heap @ [n]) p (length heap) ! length heap = n\<lparr>parent := Some p\<rparr>"
  using assms by (simp add: attach_def Let_def nth_append)

lemma attach_old_node:
  assumes "p < length heap" and "a < length heap"
  shows "attach (heap @ [n]) p (length heap) ! a =
           (if a = p then (heap ! a)\<lparr>children := children (heap ! a) @ [length heap]\<rparr>
            else heap ! a)"
  using assms by (simp add: attach_def Let_def nth_append nth_list_update)

lemma grows_attach:
  assumes g: "grows (attach (heap @ [n]) (last q) (length heap)) q1 heap'"
    and q1: "set q1 \<subseteq> insert (length heap) (set q)"
    and q: "q \<noteq> []" "\<forall>a\<in>set q. a < length heap"
  shows "grows heap q heap'"
  unfolding grows_def
proof (intro conjI allI impI)
  from g show "length heap \<le> length heap'"
    by (simp add: grows_def length_attach)
next
  fix a assume a: "a < length heap"
  let ?h1 = "attach (heap @ [n]) (last q) (length heap)"
  from q have p: "last q < length heap" "last q \<in> set q" by simp_all
  from a have "a < length ?h1" by (simp add: length_attach)
  with g obtain ys where
    ys: "heap' ! a = (?h1 ! a)\<lparr>children := children (?h1 ! a) @ ys\<rparr>" "a \<notin> set q1 \<longrightarrow> ys = []"
    by (auto simp: grows_def)
  show "\<exists>ys. heap' ! a = (heap ! a)\<lparr>children := children (heap ! a) @ ys\<rparr>
                           \<and> (a \<notin> set q \<longrightarrow> ys = [])"
  proof (cases "a = last q")
    case True
    with ys(1) p a have "heap' ! a = (heap ! a)\<lparr>children := children (heap ! a) @ (length heap # ys)\<rparr>"
      by (simp add: attach_old_node)
    with True p show ?thesis by blast
  next
    case False
    with ys(1) p a have "heap' ! a = (heap ! a)\<lparr>children := children (heap ! a) @ ys\<rparr>"
      by (simp add: attach_old_node)
    moreover have "a \<notin> set q \<longrightarrow> ys = []"
      using ys(2) q1 a by auto
    ultimately show ?thesis by blast
  qed
qed

lemma offset_loop_fields:
  assumes "offset_loop stof i c node ts = (r, c', node', ts')"
  shows "channels node' = channels node \<and> children node' = children node
         \<and> parent node' = parent node"
  using assms
proof (induction stof i c node ts rule: offset_loop.induct)
  case (1 stof i c node ts)
  show ?case
  proof (cases "i < 3")
    case False
    with "1.prems" show ?thesis by (simp add: offset_loop.simps)
  next
    case True
    obtain c1 t1 where rt: "read_token c ts = (c1, t1)" by (cases "read_token c ts")
    show ?thesis
    proof (cases "stof c1")
      case (Inl e)
      with "1.prems" True rt show ?thesis
        by (simp add: offset_loop.simps[of stof i c node ts])
    next
      case (Inr v)
      with "1.prems" True rt have
        "offset_loop stof (i + 1) c1 (node\<lparr>offset := (offset node)[i := Some v]\<rparr>) t1 =
           (r, c', node', ts')"
        by (simp add: offset_loop.simps[of stof i c node ts])
      from "1.IH"[OF True rt[symmetric] refl Inr this] show ?thesis by simp
    qed
  qed
qed

lemma end_site_True:
  assumes "end_site stof c ts heap q = (Inr True, c2, ts2, heap2)"
  shows "\<exists>node4. heap2 = attach (heap @ [node4]) (last q) (length heap)
           \<and> channels node4 = [] \<and> children node4 = []"
  using assms unfolding end_site_def
  by (auto simp: Let_def new_Node_def split: prod.splits if_splits sum.splits
      dest!: offset_loop_fields)

lemma end_site_heap:
  assumes "end_site stof c ts heap q = (r, c2, ts2, heap2)"
  shows "(\<exists>node4. heap2 = heap @ [node4]) \<or>
         (\<exists>node4. heap2 = attach (heap @ [node4]) (last q) (length heap))"
  using assms unfolding end_site_def
  by (auto simp: Let_def split: prod.splits if_splits sum.splits)

lemma grows_append: "grows heap q (heap @ [n])"
  by (auto simp: grows_def nth_append intro: exI[of _ "[]"])

lemma grows_attach_new:
  assumes "q \<noteq> []" and "\<forall>a\<in>set q. a < length heap"
  shows "grows heap q (attach (heap @ [n]) (last q) (length heap))"
  by (rule grows_attach[OF grows_refl _ assms]) auto

lemma joint_loop_grows:
  assumes "joint_loop stof c ts heap q = (r, c', ts', heap', q')"
    and "\<forall>a\<in>set q. a < length heap"
  shows "grows heap q heap'"
  using assms
proof (induction c ts heap q rule: joint_loop_cases_induct[where stof = stof])
  case (empty c ts heap)
  then show ?case by (simp add: joint_loop_Nil grows_refl)
next
  case (joint c ts heap q ts1 r0 node2 ts2)
  show ?case
  proof (cases "r0 = Inr True")
    case True
    let ?h1 = "attach (heap @ [node2]) (last q) (length heap)"
    from joint.prems(1) True have run: "joint_loop stof ''JOINT'' ts2 ?h1 (q @ [length heap]) =
        (r, c', ts', heap', q')"
      by (simp add: joint_loop_JOINT[OF joint.hyps(1-3)])
    have "\<forall>a\<in>set (q @ [length heap]). a < length ?h1"
      using joint.prems(2) by (auto simp: length_attach)
    from joint.IH[OF True run this] have "grows ?h1 (q @ [length heap]) heap'" .
    from grows_attach[OF this _ joint.hyps(1) joint.prems(2)] show ?thesis by auto
  next
    case False
    with joint.prems(1) have "heap' = heap @ [node2]"
      by (simp add: joint_loop_JOINT[OF joint.hyps(1-3)])
    then show ?thesis
      by (simp add: grows_append)
  qed
next
  case (endsite c ts heap q ts1 r0 c2 ts2 heap2)
  show ?case
  proof (cases "r0 = Inr True")
    case True
    from end_site_True[OF endsite.hyps(3)[unfolded True]] obtain node4 where
      h2: "heap2 = attach (heap @ [node4]) (last q) (length heap)"
      by blast
    from endsite.prems(1) True have run: "joint_loop stof c2 ts2 heap2 q = (r, c', ts', heap', q')"
      by (simp add: joint_loop_End[OF endsite.hyps(1-3)])
    have "\<forall>a\<in>set q. a < length heap2"
      using endsite.prems(2) by (auto simp: h2 length_attach)
    from endsite.IH[OF True run this] have "grows heap2 q heap'" .
    from grows_attach[OF this[unfolded h2] _ endsite.hyps(1) endsite.prems(2)]
    show ?thesis by auto
  next
    case False
    with endsite.prems(1) have h': "heap' = heap2"
      by (simp add: joint_loop_End[OF endsite.hyps(1-3)])
    from end_site_heap[OF endsite.hyps(3)] show ?thesis
      unfolding h'
      using grows_append grows_attach_new[OF endsite.hyps(1) endsite.prems(2)] by metis
  qed
next
  case (close c ts heap q ts1)
  from close.prems(1) have run: "joint_loop stof ''}'' ts1 heap (butlast q) = (r, c', ts', heap', q')"
    by (simp add: joint_loop_close[OF close.hyps])
  have "\<forall>a\<in>set (butlast q). a < length heap"
    using close.prems(2) by (auto dest: in_set_butlastD)
  from close.IH[OF run this] show ?case
    by (rule grows_subset) (auto dest: in_set_butlastD)
next
  case (other c ts heap q c1 ts1)
  then show ?case
    by (simp add: joint_loop_other[OF other.hyps] grows_refl)
qed


lemma joint_loop_ends_leaves:
  assumes "joint_loop stof c ts heap q = (r, c', ts', heap', q')"
    and "\<forall>a\<in>set q. a < length heap"
    and "(e, p) \<in> set (joint_loop_ends stof c ts heap q)"
  shows "length heap \<le> e \<and> end_site_node heap' e p"
  using assms
proof (induction c ts heap q rule: joint_loop_cases_induct[where stof = stof])
  case (empty c ts heap)
  then show ?case by (simp add: joint_loop_ends_Nil)
next
  case (joint c ts heap q ts1 r0 node2 ts2)
  show ?case
  proof (cases "r0 = Inr True")
    case True
    let ?h1 = "attach (heap @ [node2]) (last q) (length heap)"
    from joint.prems(1) True have run: "joint_loop stof ''JOINT'' ts2 ?h1 (q @ [length heap]) =
        (r, c', ts', heap', q')"
      by (simp add: joint_loop_JOINT[OF joint.hyps(1-3)])
    from joint.prems(3) True have
      mem: "(e, p) \<in> set (joint_loop_ends stof ''JOINT'' ts2 ?h1 (q @ [length heap]))"
      by (simp add: joint_loop_ends_JOINT[OF joint.hyps(1-3)])
    have "\<forall>a\<in>set (q @ [length heap]). a < length ?h1"
      using joint.prems(2) by (auto simp: length_attach)
    from joint.IH[OF True run this mem] show ?thesis
      by (simp add: length_attach)
  next
    case False
    with joint.prems(3) show ?thesis
      by (simp add: joint_loop_ends_JOINT[OF joint.hyps(1-3)])
  qed
next
  case (endsite c ts heap q ts1 r0 c2 ts2 heap2)
  show ?case
  proof (cases "r0 = Inr True")
    case True
    from end_site_True[OF endsite.hyps(3)[unfolded True]] obtain node4 where
      h2: "heap2 = attach (heap @ [node4]) (last q) (length heap)"
      and leaf: "channels node4 = []" "children node4 = []"
      by blast
    from endsite.prems(1) True have run: "joint_loop stof c2 ts2 heap2 q = (r, c', ts', heap', q')"
      by (simp add: joint_loop_End[OF endsite.hyps(1-3)])
    have inq: "\<forall>a\<in>set q. a < length heap2"
      using endsite.prems(2) by (auto simp: h2 length_attach)
    from endsite.prems(3) True consider (here) "e = length heap" "p = last q"
      | (later) "(e, p) \<in> set (joint_loop_ends stof c2 ts2 heap2 q)"
      by (auto simp: joint_loop_ends_End[OF endsite.hyps(1-3)])
    then show ?thesis
    proof cases
      case here
      from endsite.hyps(1) endsite.prems(2) have p: "last q < length heap" "last q \<in> set q"
        by simp_all
      from joint_loop_grows[OF run inq] have g: "grows heap2 q heap'" .
      have e2: "e < length heap2" by (simp add: here h2 length_attach)
      have "e \<notin> set q" using endsite.prems(2) here by auto
      from grows_same[OF g e2 this] have "heap' ! e = node4\<lparr>parent := Some (last q)\<rparr>"
        by (simp add: here h2 attach_new_node[OF p(1)])
      moreover have "last q < length heap2" using p(1) by (simp add: h2 length_attach)
      from grows_children[OF g this] have "e \<in> set (children (heap' ! last q))"
        using p(1) by (auto simp: h2 attach_old_node here)
      moreover from grows_length[OF g] e2 p(1) have "e < length heap'" "last q < length heap'"
        by (simp_all add: h2 length_attach)
      ultimately show ?thesis
        using leaf here by (simp add: end_site_node_def)
    next
      case later
      from endsite.IH[OF True run inq later] show ?thesis
        by (simp add: h2 length_attach)
    qed
  next
    case False
    with endsite.prems(3) show ?thesis
      by (simp add: joint_loop_ends_End[OF endsite.hyps(1-3)])
  qed
next
  case (close c ts heap q ts1)
  from close.prems(1) have run: "joint_loop stof ''}'' ts1 heap (butlast q) = (r, c', ts', heap', q')"
    by (simp add: joint_loop_close[OF close.hyps(1,2)])
  from close.prems(3) have mem: "(e, p) \<in> set (joint_loop_ends stof ''}'' ts1 heap (butlast q))"
    by (simp add: joint_loop_ends_close[OF close.hyps(1,2)])
  have "\<forall>a\<in>set (butlast q). a < length heap"
    using close.prems(2) by (auto dest: in_set_butlastD)
  from close.IH[OF run this mem] show ?case .
next
  case (other c ts heap q c1 ts1)
  then show ?case
    by (simp add: joint_loop_ends_other[OF other.hyps])
qed

lemma joint_loop_True_queue:
  assumes "joint_loop stof c ts heap q = (Inr True, c', ts', heap', q')"
  shows "q' = []"
  using assms
proof (induction c ts heap q rule: joint_loop_cases_induct[where stof = stof])
  case (empty c ts heap)
  then show ?case by (simp add: joint_loop_Nil)
next
  case (joint c ts heap q ts1 r0 node2 ts2)
  then show ?case
    by (cases "r0 = Inr True") (simp_all add: joint_loop_JOINT[OF joint.hyps(1-3)])
next
  case (endsite c ts heap q ts1 r0 c2 ts2 heap2)
  then show ?case
    by (cases "r0 = Inr True") (simp_all add: joint_loop_End[OF endsite.hyps(1-3)])
next
  case (close c ts heap q ts1)
  then show ?case
    by (simp add: joint_loop_close[OF close.hyps(1,2)])
next
  case (other c ts heap q c1 ts1)
  then show ?case
    by (simp add: joint_loop_other[OF other.hyps])
qed

lemma end_site_node_grows:
  assumes "grows heap [] heap'" and "end_site_node heap e p"
  shows "end_site_node heap' e p"
proof -
  from assms(2) have e: "e < length heap" "p < length heap"
    by (simp_all add: end_site_node_def)
  from grows_same[OF assms(1) e(1)] grows_same[OF assms(1) e(2)] grows_length[OF assms(1)]
    assms(2)
  show ?thesis by (simp add: end_site_node_def)
qed

lemma root_loop_other:
  assumes "c \<noteq> ''ROOT''"
  shows "root_loop stof c ts heap roots q = (Inr True, c, ts, heap, roots, q)"
    and "root_loop_ends stof c ts heap roots q = []"
  using assms by (simp_all add: root_loop.simps root_loop_ends.simps)

lemma root_loop_ROOT:
  assumes "readNode stof new_Node ts = (r1, node1, ts1)"
    and "joint_loop stof ''ROOT'' ts1 (heap @ [node1]) (q @ [length heap]) = (r2, c2, ts2, heap2, q2)"
    and "read_token c2 ts2 = (c3, ts3)"
  shows "root_loop stof ''ROOT'' ts heap roots q =
           (if r1 \<noteq> Inr True then (r1, ''ROOT'', ts1, heap @ [node1], roots, q)
            else if r2 \<noteq> Inr True then (r2, c2, ts2, heap2, roots @ [length heap], q2)
            else root_loop stof c3 ts3 heap2 (roots @ [length heap]) q2)"
    and "root_loop_ends stof ''ROOT'' ts heap roots q =
           (if r1 \<noteq> Inr True then []
            else joint_loop_ends stof ''ROOT'' ts1 (heap @ [node1]) (q @ [length heap]) @
                 (if r2 \<noteq> Inr True then []
                  else root_loop_ends stof c3 ts3 heap2 (roots @ [length heap]) q2))"
  using assms
  by (simp_all add: root_loop.simps[of stof "''ROOT''" ts]
      root_loop_ends.simps[of stof "''ROOT''" ts] Let_def split: sum.splits bool.splits)

lemma grows_trans_closed:
  assumes "grows heap [] heap1" and "grows heap1 [] heap2"
  shows "grows heap [] heap2"
  unfolding grows_def
proof (intro conjI allI impI)
  from assms show "length heap \<le> length heap2" by (simp add: grows_def)
next
  fix a assume a: "a < length heap"
  with grows_length[OF assms(1)] have a1: "a < length heap1" by simp
  from grows_same[OF assms(2) a1] grows_same[OF assms(1) a]
  have "heap2 ! a = heap ! a" by simp
  then show "\<exists>ys. heap2 ! a = (heap ! a)\<lparr>children := children (heap ! a) @ ys\<rparr>
                \<and> (a \<notin> set [] \<longrightarrow> ys = [])"
    by (auto intro: exI[of _ "[]"])
qed

lemma root_loop_ends_leaves:
  assumes "root_loop stof c ts heap roots [] = (r, c', ts', heap', roots', q')"
  shows "grows heap [] heap' \<and>
         (\<forall>(e, p)\<in>set (root_loop_ends stof c ts heap roots []). end_site_node heap' e p)"
  using assms
proof (induction "length ts" arbitrary: c ts heap roots rule: less_induct)
  case less
  show ?case
  proof (cases "c = ''ROOT''")
    case False
    with less.prems show ?thesis
      by (simp add: root_loop_other grows_refl)
  next
    case True
    obtain r1 node1 ts1 where rn: "readNode stof (new_Node :: 'a Node) ts = (r1, node1, ts1)"
      by (cases "readNode stof (new_Node :: 'a Node) ts")
    obtain r2 c2 ts2 heap2 q2 where
      jl: "joint_loop stof ''ROOT'' ts1 (heap @ [node1]) ([] @ [length heap]) =
             (r2, c2, ts2, heap2, q2)"
      by (cases "joint_loop stof ''ROOT'' ts1 (heap @ [node1]) ([] @ [length heap])")
    obtain c3 ts3 where rt: "read_token c2 ts2 = (c3, ts3)"
      by (cases "read_token c2 ts2")
    note unfold = root_loop_ROOT[OF rn jl rt]
    have inq: "\<forall>a\<in>set ([] @ [length heap]). a < length (heap @ [node1])"
      by simp
    note g1 = joint_loop_grows[OF jl inq]
    have g01: "grows heap [] heap2"
      unfolding grows_def
    proof (intro conjI allI impI)
      from grows_length[OF g1] show "length heap \<le> length heap2" by simp
    next
      fix a assume a: "a < length heap"
      then have "heap2 ! a = (heap @ [node1]) ! a"
        by (intro grows_same[OF g1]) auto
      with a have "heap2 ! a = heap ! a" by (simp add: nth_append)
      then show "\<exists>ys. heap2 ! a = (heap ! a)\<lparr>children := children (heap ! a) @ ys\<rparr>
                    \<and> (a \<notin> set [] \<longrightarrow> ys = [])"
        by (auto intro: exI[of _ "[]"])
    qed
    have ends1: "end_site_node heap2 e p"
      if "(e, p) \<in> set (joint_loop_ends stof ''ROOT'' ts1 (heap @ [node1]) ([] @ [length heap]))"
      for e p
      using joint_loop_ends_leaves[OF jl inq that] by simp
    from less.prems True have prem:
      "root_loop stof ''ROOT'' ts heap roots [] = (r, c', ts', heap', roots', q')"
      by simp
    have "grows heap [] heap' \<and>
         (\<forall>(e, p)\<in>set (root_loop_ends stof ''ROOT'' ts heap roots []). end_site_node heap' e p)"
    proof (cases "r1 = Inr True")
      case r1: False
      with prem have "heap' = heap @ [node1]"
        by (simp add: unfold)
      with r1 show ?thesis
        by (simp add: unfold grows_append)
    next
      case r1: True
      show ?thesis
      proof (cases "r2 = Inr True")
        case r2: False
        with prem r1 have "heap' = heap2"
          by (simp add: unfold)
        with r1 r2 g01 ends1 show ?thesis
          by (auto simp: unfold)
      next
        case r2: True
        from joint_loop_True_queue[OF jl[unfolded r2]] have q2: "q2 = []" .
        from prem r1 r2 q2 have run:
          "root_loop stof c3 ts3 heap2 (roots @ [length heap]) [] = (r, c', ts', heap', roots', q')"
          by (simp add: unfold)
        have "length ts3 < length ts"
          using readNode_True_length[OF rn[unfolded r1]] joint_loop_length[OF jl]
            read_token_length[OF rt] by simp
        from less.hyps[OF this run] have
          g2: "grows heap2 [] heap'"
          and ends2: "\<forall>(e, p)\<in>set (root_loop_ends stof c3 ts3 heap2 (roots @ [length heap]) []).
                        end_site_node heap' e p"
          by simp_all
        from ends1 g2 have "end_site_node heap' e p"
          if "(e, p) \<in> set (joint_loop_ends stof ''ROOT'' ts1 (heap @ [node1]) ([] @ [length heap]))"
          for e p
          using that by (blast intro: end_site_node_grows)
        with ends2 grows_trans_closed[OF g01 g2] r1 r2 q2 show ?thesis
          by (auto simp: unfold)
      qed
    qed
    with True show ?thesis by simp
  qed
qed

lemma node_loop_unchanged:
  assumes "node_loop heap tokens i q = Some r"
  shows "fst (snd r) = heap \<and> fst (snd (snd r)) = tokens"
proof (rule node_loop.raw_induct
    [where P = "\<lambda>heap tokens i q r. fst (snd r) = heap \<and> fst (snd (snd r)) = tokens",
      OF _ assms], goal_cases)
  case (1 nl heap tokens i q r)
  show ?case
  proof (cases "q = []")
    case True
    with 1(2) show ?thesis by auto
  next
    case False
    with 1(2) obtain i3 q3 where "nl heap tokens i3 q3 = Some r"
      by (auto simp: readAnimNode_result Let_def bind_eq_Some_conv)
    from 1(1)[OF this] show ?thesis .
  qed
qed

lemma roots_loop_unchanged:
  assumes "roots_loop heap tokens i q roots = Some r"
  shows "fst (snd r) = heap \<and> fst (snd (snd r)) = tokens"
  using assms
proof (induction roots arbitrary: i q)
  case Nil
  then show ?case by auto
next
  case (Cons root roots)
  from Cons.prems obtain state heap1 tokens1 i1 q1 where
    nl: "node_loop heap tokens i (q @ [root]) = Some (state, heap1, tokens1, i1, q1)"
    and rest: "(if \<not> state then Some (False, heap1, tokens1, i1, q1)
                else roots_loop heap1 tokens1 i1 q1 roots) = Some r"
    by (auto simp: bind_eq_Some_conv)
  from node_loop_unchanged[OF nl] have same: "heap1 = heap" "tokens1 = tokens"
    by simp_all
  show ?case
  proof (cases state)
    case True
    with rest same have "roots_loop heap tokens i1 q1 roots = Some r" by simp
    from Cons.IH[OF this] show ?thesis .
  next
    case False
    with rest same show ?thesis by auto
  qed
qed

lemma frame_loop_unchanged:
  assumes "frame_loop heap tokens i nbFrames roots q = Some r"
  shows "fst (snd r) = heap \<and> snd (snd r) = tokens"
proof (rule frame_loop.raw_induct
    [where P = "\<lambda>heap tokens i nbFrames roots q r. fst (snd r) = heap \<and> snd (snd r) = tokens",
      OF _ assms], goal_cases)
  case (1 fl heap tokens i nbFrames roots q r)
  show ?case
  proof (cases "i < nbFrames")
    case False
    with 1(2) show ?thesis by auto
  next
    case True
    with 1(2) obtain state heap1 tokens1 i1 q1 where
      rl: "roots_loop heap tokens i q roots = Some (state, heap1, tokens1, i1, q1)"
      and rest: "(if \<not> state then Some (False, heap1, tokens1)
                  else fl heap1 tokens1 (i1 + 1) nbFrames roots q1) = Some r"
      by (auto simp: bind_eq_Some_conv)
    from roots_loop_unchanged[OF rl] have same: "heap1 = heap" "tokens1 = tokens"
      by simp_all
    show ?thesis
    proof (cases state)
      case True
      with rest same have "fl heap tokens (i1 + 1) nbFrames roots q1 = Some r" by simp
      from 1(1)[OF this] show ?thesis .
    next
      case False
      with rest same show ?thesis by auto
    qed
  qed
qed

text \<open>
  C8. Every End-Site joint that the hierarchy phase produces (a node \<open>e\<close> allocated by an
  End branch that reached its end, \<open>p\<close> the joint open at that moment) is on the heap at the
  end of the phase with an empty channel list and no children, its parent is \<open>p\<close> and it is
  in the children of \<open>p\<close>. readAnimNode called on it, with any stream, returns true and
  leaves the stream and the node as they are; and a frame loop that returns leaves the
  heap and the stream unchanged.
\<close>

theorem end_site_joints_are_leaves:
  assumes "root_loop stof c ts [] [] [] = (r, c', ts', heap, roots, q)"
    and "(e, p) \<in> set (root_loop_ends stof c ts [] [] [])"
  shows "e < length heap \<and> p < length heap
         \<and> channels (heap ! e) = [] \<and> children (heap ! e) = []
         \<and> parent (heap ! e) = Some p \<and> e \<in> set (children (heap ! p))
         \<and> readAnimNode (heap ! e) tokens = (True, heap ! e, tokens)
         \<and> (frame_loop heap tokens i nbFrames roots nodeQueue = Some (state, heap4, tokens4) \<longrightarrow>
              heap4 = heap \<and> tokens4 = tokens)"
proof -
  from root_loop_ends_leaves[OF assms(1)] assms(2) have "end_site_node heap e p"
    by blast
  moreover have "heap4 = heap \<and> tokens4 = tokens"
    if "frame_loop heap tokens i nbFrames roots nodeQueue = Some (state, heap4, tokens4)"
    using frame_loop_unchanged[OF that] by simp
  ultimately show ?thesis
    by (simp add: end_site_node_def readAnimNode_result)
qed

lemma scenario_ends:
  "root_loop_ends stof_decimal ''ROOT''
     [''Hips'', ''{'', ''OFFSET'', ''0'', ''0'', ''0'', ''CHANNELS'', ''3'',
      ''Xposition'', ''Yposition'', ''Zposition'', ''End'', ''Site'', ''{'', ''OFFSET'', ''0'', ''5'',
      ''0'', ''}'', ''}'', ''MOTION'', ''Frames:'', ''2'', ''Frame'', ''Time:'', ''0.0333333'',
      ''0'', ''0'', ''0'', ''1'', ''0'', ''0''] [] [] [] = [(1, 0)]"
  by code_simp

theorem end_site_joints_are_leaves_witness:
  "(let heap = [\<lparr>name = ''Hips'', offset = [Some (0, 0), Some (0, 0), Some (0, 0)],
                   channels = [''Xposition'', ''Yposition'', ''Zposition''], jointObj = None,
                   parent = None, children = [1], channelValues = []\<rparr>,
                 \<lparr>name = ''Site'', offset = [Some (0, 0), Some (5, 0), Some (0 :: int, 0 :: int)],
                   channels = [], jointObj = None, parent = Some 0, children = [],
                   channelValues = []\<rparr>]
    in (1, 0) \<in> set (root_loop_ends stof_decimal ''ROOT''
          [''Hips'', ''{'', ''OFFSET'', ''0'', ''0'', ''0'', ''CHANNELS'', ''3'',
           ''Xposition'', ''Yposition'', ''Zposition'', ''End'', ''Site'', ''{'', ''OFFSET'', ''0'',
           ''5'', ''0'', ''}'', ''}'', ''MOTION'', ''Frames:'', ''2'', ''Frame'', ''Time:'',
           ''0.0333333'', ''0'', ''0'', ''0'', ''1'', ''0'', ''0''] [] [] [])
       \<and> channels (heap ! 1) = [] \<and> children (heap ! 1) = []
       \<and> parent (heap ! 1) = Some 0 \<and> 1 \<in> set (children (heap ! 0))
       \<and> readAnimNode (heap ! 1) [''0'', ''0'', ''0''] = (True, heap ! 1, [''0'', ''0'', ''0''])
       \<and> frame_loop heap [''0'', ''0'', ''0''] 0 0 [0] [] = Some (True, heap, [''0'', ''0'', ''0'']))"
proof -
  have mem: "(1, 0) \<in> set (root_loop_ends stof_decimal ''ROOT''
          [''Hips'', ''{'', ''OFFSET'', ''0'', ''0'', ''0'', ''CHANNELS'', ''3'',
           ''Xposition'', ''Yposition'', ''Zposition'', ''End'', ''Site'', ''{'', ''OFFSET'', ''0'',
           ''5'', ''0'', ''}'', ''}'', ''MOTION'', ''Frames:'', ''2'', ''Frame'', ''Time:'',
           ''0.0333333'', ''0'', ''0'', ''0'', ''1'', ''0'', ''0''] [] [] [])"
    by (simp add: scenario_ends)
  have frames: "frame_loop heap tokens 0 0 roots [] = Some (True, heap, tokens)"
    for heap :: "(int \<times> int) Node list" and tokens roots
    by (simp add: frame_loop.simps)
  from end_site_joints_are_leaves[OF scenario_hierarchy mem, of "[''0'', ''0'', ''0'']"] mem frames
  show ?thesis
    by (simp add: Let_def)
qed


subsection \<open>Failure\<close>






subsection \<open>File identification\<close>

text \<open>
  C10. For every file name and every buffer, whatever its content and the size passed,
  identifyFile returns kIsMyFileType: the buffer is not inspected, so a buffer that does
  not start with the marker is claimed like any other.
\<close>

theorem identifyFile_always_mine: "identifyFile fileName buffer sz = kIsMyFileType"
  by (simp add: identifyFile_def)

end
